theory Spec2Isabelle
  imports Main "HOL-Library.Signed_Division" "HOL-Library.AList"
begin

section \<open>The write engine of libewf: \<open>libewf_write_io_handle.c\<close>\<close>

text \<open>
  A shallow embedding of the low level writing functions of libewf. C integers are
  modelled as \<open>int\<close> with every conversion written out: \<open>u32\<close>, \<open>u64\<close> and \<open>s64\<close>
  reduce a value to the range of \<open>uint32_t\<close>, \<open>uint64_t\<close> and \<open>int64_t\<close>. The data model
  is LP64: \<open>size_t\<close> and the result of \<open>sizeof\<close> are unsigned 64-bit values, \<open>ssize_t\<close>
  is a signed 64-bit value, \<open>int\<close> and \<open>unsigned int\<close> are 32 bits wide. An operation
  whose operands are an \<open>int64_t\<close> and a \<open>size_t\<close> is therefore performed on unsigned
  64-bit values, and an operation on an \<open>int\<close> and a \<open>uint32_t\<close> on unsigned 32-bit
  values. A conversion to a signed type and a signed overflow wrap around (two's
  complement).
\<close>

subsection \<open>Integer conversions and limits\<close>

definition u32 :: "int \<Rightarrow> int" where
  "u32 x = x mod 2 ^ 32"

definition u64 :: "int \<Rightarrow> int" where
  "u64 x = x mod 2 ^ 64"

definition s64 :: "int \<Rightarrow> int" where
  "s64 x = (x + 2 ^ 63) mod 2 ^ 64 - 2 ^ 63"

definition INT32_MAX :: int where
  "INT32_MAX = 2 ^ 31 - 1"

definition UINT32_MAX :: int where
  "UINT32_MAX = 2 ^ 32 - 1"

definition INT64_MAX :: int where
  "INT64_MAX = 2 ^ 63 - 1"

definition SSIZE_MAX :: int where
  "SSIZE_MAX = 2 ^ 63 - 1"

subsection \<open>Constants of the headers\<close>

text \<open>
  Modelled from the spec: the sizes of the on-disk structures, whose declarations are not
  part of the file. A section header has 76 bytes, a CRC and a table offset have 4 bytes
  each. The format constants are the values of libewf's \<open>ewf_definitions.h\<close> and
  \<open>libewf_definitions.h\<close>; the functions below only compare them for equality.
\<close>

definition sizeof_ewf_section_t :: int where
  "sizeof_ewf_section_t = 76"

definition sizeof_ewf_crc_t :: int where
  "sizeof_ewf_crc_t = 4"

definition sizeof_ewf_table_offset_t :: int where
  "sizeof_ewf_table_offset_t = 4"

definition EWF_FORMAT_S01 :: int where
  "EWF_FORMAT_S01 = 115"

definition EWF_FORMAT_E01 :: int where
  "EWF_FORMAT_E01 = 101"

definition LIBEWF_FORMAT_ENCASE1 :: int where
  "LIBEWF_FORMAT_ENCASE1 = 1"

definition LIBEWF_FORMAT_ENCASE5 :: int where
  "LIBEWF_FORMAT_ENCASE5 = 5"

definition EWF_COMPRESSION_NONE :: int where
  "EWF_COMPRESSION_NONE = 0"

definition EWF_COMPRESSION_DEFAULT :: int where
  "EWF_COMPRESSION_DEFAULT = - 1"

definition LIBEWF_SEGMENT_FILE_TYPE_EWF :: int where
  "LIBEWF_SEGMENT_FILE_TYPE_EWF = 69"

definition LIBEWF_SEGMENT_FILE_TYPE_DWF :: int where
  "LIBEWF_SEGMENT_FILE_TYPE_DWF = 100"

subsection \<open>Errors\<close>

text \<open>
  Every function of the file returns \<open>-1\<close> on error, after \<open>liberror_error_set\<close> with a
  domain and a code. \<open>Error\<close> carries the code of the first error set by a function of
  the file; \<open>Failed\<close> is a return of \<open>-1\<close> with no error set by the function; \<open>Undefined\<close>
  is a point where the C program has no defined behaviour.
\<close>

datatype liberror =
    ARGUMENT_ERROR_INVALID_VALUE
  | ARGUMENT_ERROR_VALUE_EXCEEDS_MAXIMUM
  | ARGUMENT_ERROR_VALUE_TOO_LARGE
  | ARGUMENT_ERROR_UNSUPPORTED_VALUE
  | ARGUMENT_ERROR_VALUE_ZERO_OR_LESS
  | ARGUMENT_ERROR_VALUE_OUT_OF_RANGE
  | ARGUMENT_ERROR_CONFLICTING_VALUE
  | MEMORY_ERROR_INSUFFICIENT
  | MEMORY_ERROR_SET_FAILED
  | RUNTIME_ERROR_GET_FAILED
  | RUNTIME_ERROR_RESIZE_FAILED
  | RUNTIME_ERROR_VALUE_ALREADY_SET
  | RUNTIME_ERROR_VALUE_MISSING
  | RUNTIME_ERROR_VALUE_OUT_OF_RANGE
  | RUNTIME_ERROR_INITIALIZE_FAILED
  | RUNTIME_ERROR_REMOVE_FAILED
  | RUNTIME_ERROR_FINALIZE_FAILED
  | COMPRESSION_ERROR_COMPRESS_FAILED
  | IO_ERROR_OPEN_FAILED
  | IO_ERROR_WRITE_FAILED
  | IO_ERROR_SEEK_FAILED

datatype undefined_behaviour =
    DIVISION_BY_ZERO
  | NULL_DEREFERENCE
  | OUT_OF_BOUNDS

datatype failure =
    Error liberror
  | Failed
  | Undefined undefined_behaviour

subsection \<open>Media values\<close>

text \<open>
  The fields of \<open>libewf_media_values_t\<close> the write functions read: \<open>media_size\<close> is a
  \<open>size64_t\<close>, \<open>chunk_size\<close> and \<open>amount_of_chunks\<close> are \<open>uint32_t\<close>. A pointer to the
  structure is an \<open>option\<close>, \<open>None\<close> for \<open>NULL\<close>.
\<close>

record media_values =
  media_size :: int
  chunk_size :: int
  amount_of_chunks :: int

subsection \<open>The capacity planner\<close>

text \<open>
  \<open>libewf_write_io_handle_calculate_chunks_per_segment\<close>. The first argument tells
  whether the output pointer is non-\<open>NULL\<close>; the value stored through it is the result.
  The divisor of the EWF-S01 branch, \<open>chunk_size + 16\<close>, is an \<open>unsigned int\<close> and the
  division is signed; the divisor of the other branch, \<open>chunk_size + sizeof( ewf_crc_t )\<close>,
  is a \<open>size_t\<close> and the division is unsigned.
\<close>

definition libewf_write_io_handle_calculate_chunks_per_segment ::
  "bool \<Rightarrow> int \<Rightarrow> int \<Rightarrow> int \<Rightarrow> int \<Rightarrow> media_values option \<Rightarrow> int \<Rightarrow> int \<Rightarrow> int
    \<Rightarrow> failure + int" where
  "libewf_write_io_handle_calculate_chunks_per_segment chunks_per_segment
     remaining_segment_file_size maximum_section_amount_of_chunks segment_amount_of_chunks
     amount_of_chunks_written media_values format ewf_format unrestrict_offset_amount =
   (if \<not> chunks_per_segment then Inl (Error ARGUMENT_ERROR_INVALID_VALUE)
    else if maximum_section_amount_of_chunks = 0 then Inl (Error ARGUMENT_ERROR_INVALID_VALUE)
    else case media_values of
      None \<Rightarrow> Inl (Error ARGUMENT_ERROR_INVALID_VALUE)
    | Some mv \<Rightarrow>
       (let divisor = (if ewf_format = EWF_FORMAT_S01 then u32 (chunk_size mv + 16)
                       else u64 (chunk_size mv + sizeof_ewf_crc_t))
        in if divisor = 0 then Inl (Undefined DIVISION_BY_ZERO)
        else
         (let maximum_chunks_per_segment = s64 remaining_segment_file_size;
              maximum_chunks_per_segment =
                (if ewf_format = EWF_FORMAT_S01
                 then maximum_chunks_per_segment sdiv divisor
                 else s64 (u64 maximum_chunks_per_segment div divisor));
              required_chunk_sections =
                (if unrestrict_offset_amount = 0
                 then maximum_chunks_per_segment smod maximum_section_amount_of_chunks
                 else 1);
              calculated_chunks_per_segment = s64 remaining_segment_file_size;
              calculated_chunks_per_segment =
                (if ewf_format = EWF_FORMAT_S01
                 then s64 (u64 (u64 (s64 (u64 (u64 calculated_chunks_per_segment
                        - u64 (u64 required_chunk_sections * sizeof_ewf_section_t))))
                        - u64 (u64 maximum_chunks_per_segment * sizeof_ewf_table_offset_t)))
                 else if format = LIBEWF_FORMAT_ENCASE1
                 then s64 (u64 (u64 (s64 (u64 (u64 calculated_chunks_per_segment
                        - u64 (u64 required_chunk_sections
                               * u64 (sizeof_ewf_section_t + sizeof_ewf_crc_t)))))
                        - u64 (u64 maximum_chunks_per_segment * sizeof_ewf_table_offset_t)))
                 else s64 (u64 (u64 (s64 (u64 (u64 calculated_chunks_per_segment
                        - u64 (u64 required_chunk_sections
                               * u64 (u64 (3 * sizeof_ewf_section_t) + u64 (2 * sizeof_ewf_crc_t))))))
                        - u64 (u64 (s64 (2 * maximum_chunks_per_segment))
                               * sizeof_ewf_table_offset_t))));
              calculated_chunks_per_segment =
                (if ewf_format = EWF_FORMAT_S01
                 then calculated_chunks_per_segment sdiv divisor
                 else s64 (u64 calculated_chunks_per_segment div divisor));
              calculated_chunks_per_segment =
                (if media_size mv > 0
                 then (let remaining_amount_of_chunks =
                             amount_of_chunks mv - amount_of_chunks_written
                       in if remaining_amount_of_chunks < calculated_chunks_per_segment
                          then remaining_amount_of_chunks
                          else calculated_chunks_per_segment)
                 else calculated_chunks_per_segment);
              calculated_chunks_per_segment =
                (if segment_amount_of_chunks > 0
                 then s64 (calculated_chunks_per_segment + segment_amount_of_chunks)
                 else calculated_chunks_per_segment);
              calculated_chunks_per_segment =
                (if calculated_chunks_per_segment > UINT32_MAX then UINT32_MAX
                 else calculated_chunks_per_segment)
          in Inr (u32 calculated_chunks_per_segment))))"

text \<open>
  The estimate in the words of the specification, over the mathematical integers.
  \<open>reserved_overhead_spec\<close> is the space reserved for the section starts and the table
  offsets (step 3), \<open>chunks_per_segment_spec\<close> the whole estimate (steps 1 to 7).
\<close>

definition per_chunk_cost_spec :: "media_values \<Rightarrow> int \<Rightarrow> int" where
  "per_chunk_cost_spec mv ewf_format =
     chunk_size mv + (if ewf_format = EWF_FORMAT_S01 then 16 else 4)"

definition required_sections_spec :: "int \<Rightarrow> int \<Rightarrow> media_values \<Rightarrow> int \<Rightarrow> int \<Rightarrow> int" where
  "required_sections_spec remaining max_section_chunks mv ewf_format unrestrict =
     (if unrestrict \<noteq> 0 then 1
      else (remaining div per_chunk_cost_spec mv ewf_format) mod max_section_chunks)"

definition reserved_overhead_spec ::
  "int \<Rightarrow> int \<Rightarrow> media_values \<Rightarrow> int \<Rightarrow> int \<Rightarrow> int \<Rightarrow> int" where
  "reserved_overhead_spec remaining max_section_chunks mv format ewf_format unrestrict =
     (let max_chunks = remaining div per_chunk_cost_spec mv ewf_format;
          required_sections =
            required_sections_spec remaining max_section_chunks mv ewf_format unrestrict
      in if ewf_format = EWF_FORMAT_S01
         then sizeof_ewf_section_t * required_sections
              + sizeof_ewf_table_offset_t * max_chunks
         else if format = LIBEWF_FORMAT_ENCASE1
         then (sizeof_ewf_section_t + 4) * required_sections
              + sizeof_ewf_table_offset_t * max_chunks
         else (3 * sizeof_ewf_section_t + 8) * required_sections
              + 2 * sizeof_ewf_table_offset_t * max_chunks)"

definition chunks_per_segment_spec ::
  "int \<Rightarrow> int \<Rightarrow> int \<Rightarrow> int \<Rightarrow> media_values \<Rightarrow> int \<Rightarrow> int \<Rightarrow> int \<Rightarrow> int" where
  "chunks_per_segment_spec remaining max_section_chunks segment_chunks_so_far
     total_chunks_so_far mv format ewf_format unrestrict =
     (let estimate =
            (remaining
              - reserved_overhead_spec remaining max_section_chunks mv format ewf_format unrestrict)
            div per_chunk_cost_spec mv ewf_format;
          estimate =
            (if media_size mv > 0
             then min estimate (amount_of_chunks mv - total_chunks_so_far)
             else estimate)
      in min (estimate + segment_chunks_so_far) (2 ^ 32 - 1))"

text \<open>
  \<open>libewf_write_io_handle_calculate_chunks_per_chunks_section\<close>. The product
  \<open>( chunks_section_number - 1 ) * maximum_section_amount_of_chunks\<close> has an \<open>int\<close> and a
  \<open>uint32_t\<close> operand: it is an unsigned 32-bit product. The return of \<open>-1\<close> for a
  remaining amount of zero or less sets no error.
\<close>

definition libewf_write_io_handle_calculate_chunks_per_chunks_section ::
  "bool \<Rightarrow> int \<Rightarrow> int \<Rightarrow> int \<Rightarrow> int \<Rightarrow> failure + int" where
  "libewf_write_io_handle_calculate_chunks_per_chunks_section chunks_per_chunks_section
     maximum_section_amount_of_chunks chunks_per_segment chunks_section_number
     unrestrict_offset_amount =
   (if \<not> chunks_per_chunks_section then Inl (Error ARGUMENT_ERROR_INVALID_VALUE)
    else if maximum_section_amount_of_chunks = 0 then Inl (Error ARGUMENT_ERROR_INVALID_VALUE)
    else if chunks_section_number = 0 then Inl (Error ARGUMENT_ERROR_UNSUPPORTED_VALUE)
    else
     (let remaining_amount_of_chunks = chunks_per_segment;
          remaining_amount_of_chunks =
            (if chunks_section_number > 1
             then s64 (remaining_amount_of_chunks
                        - u32 (u32 (chunks_section_number - 1) * maximum_section_amount_of_chunks))
             else remaining_amount_of_chunks)
      in if remaining_amount_of_chunks \<le> 0 then Inl Failed
         else
          (let remaining_amount_of_chunks =
                 (if unrestrict_offset_amount = 0
                     \<and> remaining_amount_of_chunks > maximum_section_amount_of_chunks
                  then maximum_section_amount_of_chunks
                  else remaining_amount_of_chunks);
               remaining_amount_of_chunks =
                 (if remaining_amount_of_chunks > INT32_MAX then INT32_MAX
                  else remaining_amount_of_chunks)
           in Inr (u32 remaining_amount_of_chunks))))"

text \<open>
  \<open>libewf_write_io_handle_test_segment_file_full\<close>: \<open>Inr 1\<close> when the segment file is
  full, \<open>Inr 0\<close> when it is not.
\<close>

definition libewf_write_io_handle_test_segment_file_full ::
  "int \<Rightarrow> int \<Rightarrow> media_values option \<Rightarrow> int \<Rightarrow> int \<Rightarrow> int \<Rightarrow> int \<Rightarrow> int \<Rightarrow> failure + int" where
  "libewf_write_io_handle_test_segment_file_full remaining_segment_file_size
     segment_amount_of_chunks media_values input_write_count chunks_per_segment
     current_amount_of_chunks format ewf_format =
   (case media_values of
      None \<Rightarrow> Inl (Error ARGUMENT_ERROR_INVALID_VALUE)
    | Some mv \<Rightarrow>
       if amount_of_chunks mv \<noteq> 0 \<and> amount_of_chunks mv = current_amount_of_chunks
       then Inr 1
       else if media_size mv \<noteq> 0 \<and> input_write_count \<ge> s64 (media_size mv)
       then Inr 1
       else if ewf_format = EWF_FORMAT_S01 \<or> format = LIBEWF_FORMAT_ENCASE1
       then (if segment_amount_of_chunks \<ge> chunks_per_segment then Inr 1 else Inr 0)
       else if remaining_segment_file_size < s64 (u64 (chunk_size mv + sizeof_ewf_crc_t))
       then Inr 1
       else Inr 0)"

text \<open>
  \<open>libewf_write_io_handle_test_chunks_section_full\<close>: \<open>Inr 1\<close> when the chunks section
  is full, \<open>Inr 0\<close> when it is not or when no chunks section is open.
\<close>

definition libewf_write_io_handle_test_chunks_section_full ::
  "int \<Rightarrow> int \<Rightarrow> media_values option \<Rightarrow> int \<Rightarrow> int \<Rightarrow> int \<Rightarrow> int \<Rightarrow> int \<Rightarrow> int \<Rightarrow> int \<Rightarrow> int
    \<Rightarrow> int \<Rightarrow> failure + int" where
  "libewf_write_io_handle_test_chunks_section_full chunks_section_offset
     remaining_segment_file_size media_values input_write_count segment_file_offset
     maximum_section_amount_of_chunks section_amount_of_chunks current_amount_of_chunks
     chunks_per_chunks_section format ewf_format unrestrict_offset_amount =
   (case media_values of
      None \<Rightarrow> Inl (Error ARGUMENT_ERROR_INVALID_VALUE)
    | Some mv \<Rightarrow>
       if segment_file_offset > INT64_MAX
       then Inl (Error ARGUMENT_ERROR_VALUE_EXCEEDS_MAXIMUM)
       else if maximum_section_amount_of_chunks = 0
       then Inl (Error ARGUMENT_ERROR_INVALID_VALUE)
       else if chunks_section_offset = 0
       then Inr 0
       else if amount_of_chunks mv \<noteq> 0 \<and> amount_of_chunks mv = current_amount_of_chunks
       then Inr 1
       else if media_size mv \<noteq> 0 \<and> input_write_count \<ge> s64 (media_size mv)
       then Inr 1
       else if unrestrict_offset_amount = 0
               \<and> section_amount_of_chunks \<ge> maximum_section_amount_of_chunks
       then Inr 1
       else if section_amount_of_chunks > INT32_MAX
       then Inr 1
       else if s64 (segment_file_offset - chunks_section_offset) > INT32_MAX
       then Inr 1
       else if ewf_format = EWF_FORMAT_S01 \<or> format = LIBEWF_FORMAT_ENCASE1
       then (if section_amount_of_chunks \<ge> chunks_per_chunks_section then Inr 1 else Inr 0)
       else if remaining_segment_file_size < s64 (u64 (chunk_size mv + sizeof_ewf_crc_t))
       then Inr 1
       else Inr 0)"


subsection \<open>Memory\<close>

text \<open>
  A pointer is an address, \<open>NULL\<close> is 0. The memory maps the address of every buffer to
  its bytes, as many as the buffer has room for. A read or a write outside a buffer has
  no defined behaviour.
\<close>

type_synonym pointer = nat

type_synonym memory = "(pointer \<times> int list) list"

definition NULL :: pointer where
  "NULL = 0"

definition read_bytes :: "memory \<Rightarrow> pointer \<Rightarrow> int \<Rightarrow> int \<Rightarrow> undefined_behaviour + int list" where
  "read_bytes m p offset n =
     (if p = NULL then Inl NULL_DEREFERENCE
      else case map_of m p of
        None \<Rightarrow> Inl OUT_OF_BOUNDS
      | Some buffer \<Rightarrow>
          if 0 \<le> offset \<and> 0 \<le> n \<and> offset + n \<le> int (length buffer)
          then Inr (take (nat n) (drop (nat offset) buffer))
          else Inl OUT_OF_BOUNDS)"

definition write_bytes ::
  "memory \<Rightarrow> pointer \<Rightarrow> int \<Rightarrow> int list \<Rightarrow> undefined_behaviour + memory" where
  "write_bytes m p offset bytes =
     (if p = NULL then Inl NULL_DEREFERENCE
      else case map_of m p of
        None \<Rightarrow> Inl OUT_OF_BOUNDS
      | Some buffer \<Rightarrow>
          if 0 \<le> offset \<and> offset + int (length bytes) \<le> int (length buffer)
          then Inr (AList.update p
                 (take (nat offset) buffer @ bytes
                    @ drop (nat offset + length bytes) buffer) m)
          else Inl OUT_OF_BOUNDS)"

text \<open>
  Modelled from the spec: the macro \<open>endian_little_revert_32bit\<close> of \<open>endian.h\<close>, which is
  not part of the file. It stores a 32-bit value in 4 bytes, the least significant byte
  first (the CRC "is appended in-place (little-endian)").
\<close>

definition endian_little_revert_32bit :: "int \<Rightarrow> int list" where
  "endian_little_revert_32bit v =
     [v mod 256, v div 256 mod 256, v div 65536 mod 256, v div 16777216 mod 256]"

text \<open>
  \<open>memory_copy\<close> of 4 bytes into an \<open>ewf_crc_t\<close>: the value of the 4 bytes in the byte
  order of the host.
\<close>

definition value_of_4_bytes :: "bool \<Rightarrow> int list \<Rightarrow> int" where
  "value_of_4_bytes big_endian bytes =
     (case (if big_endian then rev bytes else bytes) of
        [b0, b1, b2, b3] \<Rightarrow> b0 + 256 * b1 + 65536 * b2 + 16777216 * b3
      | _ \<Rightarrow> 0)"

subsection \<open>The empty block test\<close>

text \<open>
  \<open>libewf_write_io_handle_test_empty_block\<close>: the loop compares every byte of the buffer
  with the first one, from index 1 on.
\<close>

function test_empty_block_loop :: "int list \<Rightarrow> int \<Rightarrow> int \<Rightarrow> failure + int" where
  "test_empty_block_loop buffer buffer_size iterator =
     (if iterator < buffer_size
      then (if iterator < 0 \<or> int (length buffer) \<le> iterator
            then Inl (Undefined OUT_OF_BOUNDS)
            else if buffer ! 0 \<noteq> buffer ! nat iterator then Inr 0
            else test_empty_block_loop buffer buffer_size (iterator + 1))
      else Inr 1)"
  by pat_completeness auto
termination
  by (relation "measure (\<lambda>(buffer, buffer_size, iterator). nat (buffer_size - iterator))") auto

definition libewf_write_io_handle_test_empty_block ::
  "memory \<Rightarrow> pointer \<Rightarrow> int \<Rightarrow> failure + int" where
  "libewf_write_io_handle_test_empty_block m buffer buffer_size =
     (if buffer = NULL then Inl (Error ARGUMENT_ERROR_INVALID_VALUE)
      else if buffer_size > SSIZE_MAX then Inl (Error ARGUMENT_ERROR_VALUE_EXCEEDS_MAXIMUM)
      else test_empty_block_loop (case map_of m buffer of None \<Rightarrow> [] | Some bytes \<Rightarrow> bytes)
             buffer_size 1)"

subsection \<open>The chunk processor\<close>

text \<open>
  The chunk cache holds two buffers, \<open>compressed\<close> and \<open>data\<close>. The functions the chunk
  processor calls and the file does not define are parameters:
  \<^item> \<open>libewf_compress m compressed_data compressed_size uncompressed_data
    uncompressed_size compression_level\<close> gives its return value, the value it leaves in
    \<open>*compressed_size\<close> and the memory it leaves;
  \<^item> \<open>libewf_chunk_cache_resize chunk_cache m size\<close> gives its return value, the chunk
    cache and the memory it leaves;
  \<^item> \<open>ewf_crc_calculate bytes previous_key\<close> is the checksum of the bytes;
  \<^item> \<open>big_endian_host\<close> is the byte order of the host.
\<close>

record chunk_cache =
  compressed :: pointer
  data :: pointer

record environment =
  libewf_compress :: "memory \<Rightarrow> pointer \<Rightarrow> int \<Rightarrow> pointer \<Rightarrow> int \<Rightarrow> int \<Rightarrow> int \<times> int \<times> memory"
  libewf_chunk_cache_resize :: "chunk_cache \<Rightarrow> memory \<Rightarrow> int \<Rightarrow> int \<times> chunk_cache \<times> memory"
  ewf_crc_calculate :: "int list \<Rightarrow> int \<Rightarrow> int"
  big_endian_host :: bool

text \<open>
  The state of the chunk processor between its steps: the chunk cache, the memory, the
  local pointers \<open>chunk_data\<close> and \<open>compressed_chunk_data\<close>, and the value of
  \<open>*compressed_chunk_data_size\<close> (\<open>None\<close> when the pointer is \<open>NULL\<close>).
\<close>

record process_state =
  ps_chunk_cache :: chunk_cache
  ps_memory :: memory
  ps_chunk_data :: pointer
  ps_compressed_chunk_data :: pointer
  ps_compressed_chunk_data_size :: "int option"

text \<open>
  What a successful call leaves: the return value, the values stored through
  \<open>is_compressed\<close>, \<open>chunk_crc\<close>, \<open>write_crc\<close> and \<open>compressed_chunk_data_size\<close>, the final
  value of the local pointer \<open>chunk_data\<close> (the buffer the output is taken from), the chunk
  cache and the memory.
\<close>

record processed_chunk =
  return_value :: int
  is_compressed :: int
  chunk_crc :: int
  write_crc :: int
  compressed_size :: int
  output_data :: pointer
  final_state :: process_state

text \<open>
  The compression step of \<open>libewf_write_io_handle_process_chunk\<close> (the block guarded by
  \<open>ewf_format == EWF_FORMAT_S01 || chunk_compression_level != EWF_COMPRESSION_NONE\<close>).
\<close>

definition process_chunk_compress ::
  "environment \<Rightarrow> process_state \<Rightarrow> int \<Rightarrow> int \<Rightarrow> failure + process_state" where
  "process_chunk_compress env s chunk_data_size chunk_compression_level =
     (if ps_compressed_chunk_data s = NULL then Inl (Error ARGUMENT_ERROR_INVALID_VALUE)
      else if ps_chunk_data s = ps_compressed_chunk_data s
      then Inl (Error ARGUMENT_ERROR_INVALID_VALUE)
      else case ps_compressed_chunk_data_size s of
        None \<Rightarrow> Inl (Error ARGUMENT_ERROR_INVALID_VALUE)
      | Some size_on_entry \<Rightarrow>
          if size_on_entry > SSIZE_MAX then Inl (Error ARGUMENT_ERROR_VALUE_EXCEEDS_MAXIMUM)
          else
           (case libewf_compress env (ps_memory s) (ps_compressed_chunk_data s) size_on_entry
                   (ps_chunk_data s) chunk_data_size chunk_compression_level of
              (result, compressed_chunk_data_size, m) \<Rightarrow>
                if result = - 1
                   \<and> ps_compressed_chunk_data s = compressed (ps_chunk_cache s)
                   \<and> compressed_chunk_data_size > 0
                then
                 (let chunk_cache_data_used =
                        (if ps_chunk_data s = data (ps_chunk_cache s) then 1 else 0 :: int)
                  in case libewf_chunk_cache_resize env (ps_chunk_cache s) m
                            compressed_chunk_data_size of
                    (resized, chunk_cache, m) \<Rightarrow>
                      if resized \<noteq> 1 then Inl (Error RUNTIME_ERROR_RESIZE_FAILED)
                      else
                       (let compressed_chunk_data = compressed chunk_cache;
                            chunk_data =
                              (if chunk_cache_data_used = 1
                                  \<and> ps_chunk_data s \<noteq> data chunk_cache
                               then data chunk_cache else ps_chunk_data s)
                        in case libewf_compress env m compressed_chunk_data
                                  compressed_chunk_data_size chunk_data chunk_data_size
                                  chunk_compression_level of
                          (result, compressed_chunk_data_size, m) \<Rightarrow>
                            if result \<noteq> 1 then Inl (Error COMPRESSION_ERROR_COMPRESS_FAILED)
                            else Inr \<lparr>ps_chunk_cache = chunk_cache, ps_memory = m,
                                      ps_chunk_data = chunk_data,
                                      ps_compressed_chunk_data = compressed_chunk_data,
                                      ps_compressed_chunk_data_size =
                                        Some compressed_chunk_data_size\<rparr>))
                else if result \<noteq> 1 then Inl (Error COMPRESSION_ERROR_COMPRESS_FAILED)
                else Inr (s\<lparr>ps_memory := m,
                            ps_compressed_chunk_data_size := Some compressed_chunk_data_size\<rparr>)))"

text \<open>
  The last step of \<open>libewf_write_io_handle_process_chunk\<close>: the choice between the
  compressed and the raw form, and the CRC. The index \<open>*compressed_chunk_data_size -
  sizeof( ewf_crc_t )\<close> is a \<open>size_t\<close>; added to the pointer it is an offset in a 64-bit
  address space, below the buffer when the size is less than 4. \<open>memory_copy\<close> to the
  non-\<open>NULL\<close> \<open>chunk_crc\<close> does not return \<open>NULL\<close>.
\<close>

definition process_chunk_store ::
  "environment \<Rightarrow> process_state \<Rightarrow> media_values \<Rightarrow> int \<Rightarrow> int \<Rightarrow> failure + processed_chunk" where
  "process_chunk_store env s mv ewf_format chunk_data_size =
     (case ps_compressed_chunk_data_size s of
        None \<Rightarrow> Inl (Undefined NULL_DEREFERENCE)
      | Some compressed_chunk_data_size \<Rightarrow>
          if ewf_format = EWF_FORMAT_S01
             \<or> (compressed_chunk_data_size > 0
                 \<and> compressed_chunk_data_size < u64 (chunk_size mv))
          then
           (let data_write_size = compressed_chunk_data_size;
                chunk_data = ps_compressed_chunk_data s
            in case read_bytes (ps_memory s) chunk_data
                      (s64 (u64 (compressed_chunk_data_size - sizeof_ewf_crc_t)))
                      sizeof_ewf_crc_t of
                 Inl u \<Rightarrow> Inl (Undefined u)
               | Inr bytes \<Rightarrow>
                   Inr \<lparr>return_value = s64 data_write_size, is_compressed = 1,
                        chunk_crc = value_of_4_bytes (big_endian_host env) bytes,
                        write_crc = 0, compressed_size = compressed_chunk_data_size,
                        output_data = chunk_data, final_state = s\<rparr>)
          else
           (case read_bytes (ps_memory s) (ps_chunk_data s) 0 chunk_data_size of
              Inl u \<Rightarrow> Inl (Undefined u)
            | Inr bytes \<Rightarrow>
               (let crc = ewf_crc_calculate env bytes 1;
                    data_write_size = chunk_data_size
                in if ps_chunk_data s = data (ps_chunk_cache s)
                   then
                    (case write_bytes (ps_memory s) (ps_chunk_data s) chunk_data_size
                            (endian_little_revert_32bit crc) of
                       Inl u \<Rightarrow> Inl (Undefined u)
                     | Inr m \<Rightarrow>
                         Inr \<lparr>return_value = s64 (u64 (data_write_size + sizeof_ewf_crc_t)),
                              is_compressed = 0, chunk_crc = crc, write_crc = 0,
                              compressed_size = compressed_chunk_data_size,
                              output_data = ps_chunk_data s,
                              final_state = s\<lparr>ps_memory := m\<rparr>\<rparr>)
                   else
                     Inr \<lparr>return_value = s64 data_write_size, is_compressed = 0,
                          chunk_crc = crc, write_crc = 1,
                          compressed_size = compressed_chunk_data_size,
                          output_data = ps_chunk_data s, final_state = s\<rparr>)))"

text \<open>
  The first step of \<open>libewf_write_io_handle_process_chunk\<close>: the compression level of
  the chunk, \<open>EWF_COMPRESSION_DEFAULT\<close> for an empty block when the level is
  \<open>EWF_COMPRESSION_NONE\<close> and \<open>compress_empty_block\<close> is 1.
\<close>

definition process_chunk_compression_level ::
  "memory \<Rightarrow> int \<Rightarrow> int \<Rightarrow> pointer \<Rightarrow> int \<Rightarrow> failure + int" where
  "process_chunk_compression_level m compression_level compress_empty_block chunk_data
     chunk_data_size =
     (if compression_level = EWF_COMPRESSION_NONE \<and> compress_empty_block = 1
      then (case libewf_write_io_handle_test_empty_block m chunk_data chunk_data_size of
              Inl (Undefined u) \<Rightarrow> Inl (Undefined u)
            | Inl _ \<Rightarrow> Inl (Error RUNTIME_ERROR_GET_FAILED)
            | Inr result \<Rightarrow>
                Inr (if result = 1 then EWF_COMPRESSION_DEFAULT else compression_level))
      else Inr compression_level)"

text \<open>
  \<open>libewf_write_io_handle_process_chunk\<close>. The arguments \<open>is_compressed_ptr\<close>,
  \<open>chunk_crc_ptr\<close> and \<open>write_crc_ptr\<close> tell whether the output pointers are non-\<open>NULL\<close>.
\<close>

definition libewf_write_io_handle_process_chunk ::
  "environment \<Rightarrow> memory \<Rightarrow> chunk_cache option \<Rightarrow> media_values option \<Rightarrow> int \<Rightarrow> int \<Rightarrow> int
    \<Rightarrow> pointer \<Rightarrow> int \<Rightarrow> pointer \<Rightarrow> int option \<Rightarrow> bool \<Rightarrow> bool \<Rightarrow> bool
    \<Rightarrow> failure + processed_chunk" where
  "libewf_write_io_handle_process_chunk env m chunk_cache media_values compression_level
     compress_empty_block ewf_format chunk_data chunk_data_size compressed_chunk_data
     compressed_chunk_data_size is_compressed_ptr chunk_crc_ptr write_crc_ptr =
   (case chunk_cache of
      None \<Rightarrow> Inl (Error ARGUMENT_ERROR_INVALID_VALUE)
    | Some cache \<Rightarrow>
   (case media_values of
      None \<Rightarrow> Inl (Error ARGUMENT_ERROR_INVALID_VALUE)
    | Some mv \<Rightarrow>
       if chunk_data = NULL then Inl (Error ARGUMENT_ERROR_INVALID_VALUE)
       else if chunk_data = compressed cache then Inl (Error ARGUMENT_ERROR_INVALID_VALUE)
       else if chunk_data_size > SSIZE_MAX
       then Inl (Error ARGUMENT_ERROR_VALUE_EXCEEDS_MAXIMUM)
       else if chunk_data_size > u64 (chunk_size mv)
       then Inl (Error ARGUMENT_ERROR_VALUE_TOO_LARGE)
       else if \<not> chunk_crc_ptr then Inl (Error ARGUMENT_ERROR_INVALID_VALUE)
       else if \<not> is_compressed_ptr then Inl (Error ARGUMENT_ERROR_INVALID_VALUE)
       else if \<not> write_crc_ptr then Inl (Error ARGUMENT_ERROR_INVALID_VALUE)
       else
        (case process_chunk_compression_level m compression_level compress_empty_block
                chunk_data chunk_data_size of
           Inl e \<Rightarrow> Inl e
         | Inr chunk_compression_level \<Rightarrow>
            (let s = \<lparr>ps_chunk_cache = cache, ps_memory = m, ps_chunk_data = chunk_data,
                      ps_compressed_chunk_data = compressed_chunk_data,
                      ps_compressed_chunk_data_size = compressed_chunk_data_size\<rparr>
             in case (if ewf_format = EWF_FORMAT_S01
                         \<or> chunk_compression_level \<noteq> EWF_COMPRESSION_NONE
                      then process_chunk_compress env s chunk_data_size
                             chunk_compression_level
                      else Inr s) of
                  Inl e \<Rightarrow> Inl e
                | Inr s \<Rightarrow> process_chunk_store env s mv ewf_format chunk_data_size))))"

subsection \<open>An environment to run the chunk processor in\<close>

text \<open>
  \<open>ewf_crc_calculate\<close> of libewf is the Adler-32 checksum of zlib. The sample compressor
  knows the streams zlib gives at its default level for a block of 8 and a block of 64
  zero bytes, and fails on any other input; it asks for twice the room when the buffer
  is too small. The sample resize moves both buffers of the cache to new addresses.
\<close>

fun adler32_loop :: "int \<Rightarrow> int \<Rightarrow> int list \<Rightarrow> int" where
  "adler32_loop a b [] = a + 65536 * b"
| "adler32_loop a b (x # xs) =
     (let a' = (a + x) mod 65521 in adler32_loop a' ((b + a') mod 65521) xs)"

definition adler32 :: "int list \<Rightarrow> int \<Rightarrow> int" where
  "adler32 bytes previous_key =
     adler32_loop (previous_key mod 65536) (previous_key div 65536 mod 65536) bytes"

definition sample_zlib_stream :: "int list \<Rightarrow> int list" where
  "sample_zlib_stream bytes =
     (if bytes = replicate 8 0
      then [120, 156, 99, 96, 128, 0, 0, 0, 8, 0, 1]
      else if bytes = replicate 64 0
      then [120, 156, 99, 96, 160, 12, 0, 0, 0, 64, 0, 1]
      else [])"

definition sample_compress ::
  "memory \<Rightarrow> pointer \<Rightarrow> int \<Rightarrow> pointer \<Rightarrow> int \<Rightarrow> int \<Rightarrow> int \<times> int \<times> memory" where
  "sample_compress m compressed_data compressed_data_size uncompressed_data uncompressed_size
     compression_level =
     (case (map_of m compressed_data, map_of m uncompressed_data) of
        (Some target, Some source) \<Rightarrow>
          (let stream = sample_zlib_stream (take (nat uncompressed_size) source)
           in if stream = [] then (- 1, 0, m)
              else if int (length stream) > compressed_data_size then (- 1, 2 * compressed_data_size, m)
              else (1, int (length stream),
                    AList.update compressed_data (stream @ drop (length stream) target) m))
      | _ \<Rightarrow> (- 1, 0, m))"

definition sample_resize :: "chunk_cache \<Rightarrow> memory \<Rightarrow> int \<Rightarrow> int \<times> chunk_cache \<times> memory" where
  "sample_resize cache m new_size =
     (case (map_of m (compressed cache), map_of m (data cache)) of
        (Some c, Some d) \<Rightarrow>
          (1, \<lparr>compressed = compressed cache + 1000, data = data cache + 1000\<rparr>,
           AList.update (compressed cache + 1000) (c @ replicate (nat new_size - length c) 0)
             (AList.update (data cache + 1000) (d @ replicate (nat new_size - length d) 0)
               (AList.delete (compressed cache) (AList.delete (data cache) m))))
      | _ \<Rightarrow> (- 1, cache, m))"

definition sample_environment :: environment where
  "sample_environment =
     \<lparr>libewf_compress = sample_compress, libewf_chunk_cache_resize = sample_resize,
      ewf_crc_calculate = adler32, big_endian_host = False\<rparr>"

text \<open>
  Sample arguments: a chunk cache with its buffers at the addresses 10 and 20, media values
  with a chunk size of \<open>n\<close> bytes, and a memory in which both buffers of the cache have
  \<open>n + 4\<close> zero bytes and a buffer of the caller at the address 100 has \<open>n\<close> bytes of
  value 65.
\<close>

definition sample_chunk_cache :: chunk_cache where
  "sample_chunk_cache = \<lparr>compressed = 10, data = 20\<rparr>"

definition sample_media_values :: "int \<Rightarrow> media_values" where
  "sample_media_values n = \<lparr>media_size = 0, chunk_size = n, amount_of_chunks = 0\<rparr>"

definition sample_memory :: "nat \<Rightarrow> memory" where
  "sample_memory n =
     [(10, replicate (n + 4) 0), (20, replicate (n + 4) 0), (100, replicate n 65)]"

subsection \<open>The write io handle and its initialisation\<close>

text \<open>
  The fields of \<open>libewf_write_io_handle_t\<close> the file reads and writes. The sizes and the
  counts of written bytes are 64-bit values, the amounts of chunks are \<open>uint32_t\<close>, the
  chunks section number and the flags are \<open>uint8_t\<close>.
\<close>

record write_io_handle =
  wio_data_section :: pointer
  wio_table_offsets :: pointer
  wio_amount_of_table_offsets :: int
  wio_input_write_count :: int
  wio_write_count :: int
  wio_maximum_segment_file_size :: int
  wio_segment_file_size :: int
  wio_remaining_segment_file_size :: int
  wio_delta_segment_file_size :: int
  wio_maximum_section_amount_of_chunks :: int
  wio_maximum_amount_of_segments :: int
  wio_chunks_per_segment :: int
  wio_chunks_per_chunks_section :: int
  wio_amount_of_chunks :: int
  wio_segment_amount_of_chunks :: int
  wio_section_amount_of_chunks :: int
  wio_chunks_section_offset :: int
  wio_chunks_section_write_count :: int
  wio_chunks_section_number :: int
  wio_unrestrict_offset_amount :: int
  wio_create_chunks_section :: int
  wio_write_finalized :: int

definition cleared_write_io_handle :: write_io_handle where
  "cleared_write_io_handle =
     \<lparr>wio_data_section = NULL, wio_table_offsets = NULL, wio_amount_of_table_offsets = 0,
      wio_input_write_count = 0, wio_write_count = 0, wio_maximum_segment_file_size = 0,
      wio_segment_file_size = 0, wio_remaining_segment_file_size = 0,
      wio_delta_segment_file_size = 0, wio_maximum_section_amount_of_chunks = 0,
      wio_maximum_amount_of_segments = 0, wio_chunks_per_segment = 0,
      wio_chunks_per_chunks_section = 0, wio_amount_of_chunks = 0,
      wio_segment_amount_of_chunks = 0, wio_section_amount_of_chunks = 0,
      wio_chunks_section_offset = 0, wio_chunks_section_write_count = 0,
      wio_chunks_section_number = 0, wio_unrestrict_offset_amount = 0,
      wio_create_chunks_section = 0, wio_write_finalized = 0\<rparr>"

text \<open>
  Modelled from the spec: the constants \<open>LIBEWF_DEFAULT_SEGMENT_FILE_SIZE\<close> and
  \<open>EWF_MAXIMUM_OFFSETS_IN_TABLE\<close> of the headers, which are not part of the file. The
  default segment size is 1440 MiB, the default of chunks per section is 16 375.
\<close>

definition LIBEWF_DEFAULT_SEGMENT_FILE_SIZE :: int where
  "LIBEWF_DEFAULT_SEGMENT_FILE_SIZE = 1440 * 1024 * 1024"

definition EWF_MAXIMUM_OFFSETS_IN_TABLE :: int where
  "EWF_MAXIMUM_OFFSETS_IN_TABLE = 16375"

text \<open>
  The calls of a function of the file to functions the file does not define, in the order
  they are made. \<open>Memory_set\<close> tells whether its destination is \<open>NULL\<close>. A segment file
  handle is named by its address; \<open>Pool_get_offset\<close> and \<open>Pool_seek_offset\<close> name the handle
  whose \<open>file_io_pool_entry\<close> they are called with. \<open>Segment_table_create_segment_file\<close>
  tells whether the table is the delta segment table, the segment number and the file
  type. \<open>Segment_file_write_last_section\<close> carries the \<open>last_segment_file\<close> flag,
  \<open>Segment_file_write_delta_chunk\<close> the chunk, the buffer and its size, the CRC, the
  \<open>write_crc\<close> flag and the \<open>no_section_append\<close> flag. \<open>List_remove_element\<close> names the
  handle whose section list is passed and carries the address of the element to remove,
  \<open>Section_list_values_free\<close> the address of the values to free,
  \<open>Memory_free_list_element\<close> the address of the element to free. \<open>Offset_table_resize\<close> carries the
  new amount of chunk offsets, \<open>Memory_reallocate_table_offsets\<close> the size in bytes asked
  for, \<open>Segment_file_write_chunks_section_start\<close> the amount of chunks written and the
  chunks per chunks section, \<open>Segment_file_write_chunks_data\<close> the chunk, the buffer and
  its size, the \<open>is_compressed\<close> flag, the CRC and the \<open>write_crc\<close> flag,
  \<open>Segment_file_write_chunks_correction\<close> the offset and the size of the chunks section,
  the amount of chunks written and the amount of chunks of the section,
  \<open>Segment_file_write_close\<close> the segment number, the amount of chunks of the segment
  and the \<open>last_segment_file\<close> flag.
\<close>

datatype call =
    Memory_allocate
  | Memory_set bool
  | Memory_free
  | Offset_table_resize int
  | Values_table_initialize
  | Header_values_initialize
  | Header_sections_create
  | Segment_table_create_segment_file bool int int
  | Segment_file_write_start pointer int int
  | Pool_get_offset pointer
  | Pool_seek_offset pointer int
  | Memory_reallocate_table_offsets int
  | Segment_file_write_chunks_section_start pointer int int
  | Segment_file_write_chunks_data pointer int pointer int int int int
  | Segment_file_write_chunks_correction pointer int int int int
  | Segment_file_write_close pointer int int int
  | Segment_file_write_last_section pointer int
  | List_remove_element pointer pointer
  | Section_list_values_free pointer
  | Memory_free_list_element pointer
  | Segment_file_write_delta_chunk pointer int pointer int int int int

text \<open>
  \<open>libewf_write_io_handle_initialize\<close>. The argument is \<open>None\<close> for a \<open>NULL\<close> parameter,
  \<open>Some None\<close> when \<open>*write_io_handle\<close> is \<open>NULL\<close>. \<open>allocated\<close> is what \<open>memory_allocate\<close>
  returns (\<open>None\<close> for \<open>NULL\<close>), \<open>memory_set_fails\<close> tells whether \<open>memory_set\<close> returns
  \<open>NULL\<close> for a destination that is not \<open>NULL\<close>; \<open>memory_set\<close> with the destination \<open>NULL\<close>
  has no defined behaviour. The result is the calls made, the return value and the value
  of the parameter's target after the call. The test after the allocation reads the
  parameter, as the source does.
\<close>

definition libewf_write_io_handle_initialize ::
  "write_io_handle option \<Rightarrow> bool \<Rightarrow> write_io_handle option option
    \<Rightarrow> call list \<times> (failure + int) \<times> write_io_handle option option" where
  "libewf_write_io_handle_initialize allocated memory_set_fails write_io_handle =
     (if write_io_handle = None
      then ([], Inl (Error ARGUMENT_ERROR_INVALID_VALUE), write_io_handle)
      else if write_io_handle = Some None
      then
       (let target = allocated
        in if write_io_handle = None
           then ([Memory_allocate], Inl (Error MEMORY_ERROR_INSUFFICIENT), Some target)
           else if target = None
           then ([Memory_allocate, Memory_set True], Inl (Undefined NULL_DEREFERENCE),
                 Some target)
           else if memory_set_fails
           then ([Memory_allocate, Memory_set False, Memory_free],
                 Inl (Error MEMORY_ERROR_SET_FAILED), Some None)
           else ([Memory_allocate, Memory_set False], Inr 1,
                 Some (Some (cleared_write_io_handle
                   \<lparr>wio_maximum_segment_file_size := INT32_MAX,
                    wio_segment_file_size := LIBEWF_DEFAULT_SEGMENT_FILE_SIZE,
                    wio_remaining_segment_file_size := LIBEWF_DEFAULT_SEGMENT_FILE_SIZE,
                    wio_delta_segment_file_size := INT64_MAX,
                    wio_maximum_section_amount_of_chunks :=
                      EWF_MAXIMUM_OFFSETS_IN_TABLE\<rparr>))))
      else ([], Inr 1, write_io_handle))"

subsection \<open>The world of the write functions\<close>

text \<open>
  The structures the write functions reach through their pointer arguments. The file
  reads these fields of them; their declarations are in headers that are not part of the
  file. An array that is \<open>NULL\<close> is \<open>None\<close>. A segment table holds the addresses of its
  segment file handles; the handles themselves are in \<open>segment_file_handles\<close>, by address.
  The section list of a handle is the list of its elements, the last element last
  (\<open>section_list->last\<close> is \<open>NULL\<close> for the empty list). An element has an address, a
  \<open>value\<close> pointer that can be \<open>NULL\<close>, and the \<open>start_offset\<close> of the section list values
  the value points to. \<open>external\<close> is everything else the functions called can depend
  on: the files, the file io pool, the header values.
\<close>

record io_handle =
  io_format :: int
  io_ewf_format :: int
  io_compression_level :: int

record chunk_offset =
  co_segment_file_handle :: pointer
  co_file_offset :: int

record offset_table =
  ot_amount_of_chunk_offsets :: int
  ot_chunk_offset :: "chunk_offset list option"

record segment_table =
  st_amount :: int
  st_segment_file_handle :: "pointer list option"

record list_element =
  le_element :: pointer
  le_value :: pointer
  le_start_offset :: int

record segment_file_handle =
  sfh_file_type :: int
  sfh_write_open :: int
  sfh_amount_of_chunks :: int
  sfh_section_list :: "list_element list option"

record header_sections =
  hs_header :: pointer
  hs_header2 :: pointer
  hs_xheader :: pointer

record 'x world =
  write_io_handle_of :: write_io_handle
  io_handle_of :: io_handle
  media_values_of :: media_values
  offset_table_of :: offset_table
  segment_table_of :: segment_table
  delta_segment_table_of :: segment_table
  header_values_of :: pointer
  header_sections_of :: header_sections
  segment_file_handles :: "(pointer \<times> segment_file_handle) list"
  external :: 'x

text \<open>
  Which of the pointer arguments of a write function are not \<open>NULL\<close>. The segment table
  argument of \<open>libewf_write_io_handle_write_existing_chunk\<close> is the delta segment table.
\<close>

record pointer_arguments =
  arg_write_io_handle :: bool
  arg_io_handle :: bool
  arg_media_values :: bool
  arg_offset_table :: bool
  arg_segment_table :: bool
  arg_header_values :: bool
  arg_header_sections :: bool

text \<open>
  The environment answers a call in a world with a return value, an output value (the
  offset of \<open>libbfio_pool_get_offset\<close>) and the world the call leaves. A function of the
  file runs in a world with the calls made so far.
\<close>

type_synonym 'x io_environment = "call \<Rightarrow> 'x world \<Rightarrow> int \<times> int \<times> 'x world"

type_synonym 'x run = "'x world \<times> call list"

definition perform :: "'x io_environment \<Rightarrow> call \<Rightarrow> 'x run \<Rightarrow> int \<times> int \<times> 'x run" where
  "perform env c s = (case env c (fst s) of (r, out, w) \<Rightarrow> (r, out, (w, snd s @ [c])))"

text \<open>The world a sequence of calls leaves, one made after the other.\<close>

definition world_after :: "'x io_environment \<Rightarrow> call list \<Rightarrow> 'x world \<Rightarrow> 'x world" where
  "world_after env calls w = foldl (\<lambda>w c. snd (snd (env c w))) w calls"

definition update_write_io_handle ::
  "(write_io_handle \<Rightarrow> write_io_handle) \<Rightarrow> 'x run \<Rightarrow> 'x run" where
  "update_write_io_handle f s =
     (fst s\<lparr>write_io_handle_of := f (write_io_handle_of (fst s))\<rparr>, snd s)"

definition u8 :: "int \<Rightarrow> int" where
  "u8 x = x mod 2 ^ 8"

definition u16 :: "int \<Rightarrow> int" where
  "u16 x = x mod 2 ^ 16"

text \<open>The element \<open>array[ index ]\<close> of an array of the given length.\<close>

definition element :: "'a list \<Rightarrow> int \<Rightarrow> undefined_behaviour + 'a" where
  "element array index =
     (if 0 \<le> index \<and> index < int (length array) then Inr (array ! nat index)
      else Inl OUT_OF_BOUNDS)"

text \<open>The structure a segment file handle pointer points to.\<close>

definition handle_at :: "'x world \<Rightarrow> pointer \<Rightarrow> undefined_behaviour + segment_file_handle" where
  "handle_at w p =
     (if p = NULL then Inl NULL_DEREFERENCE
      else case map_of (segment_file_handles w) p of
        None \<Rightarrow> Inl OUT_OF_BOUNDS
      | Some handle \<Rightarrow> Inr handle)"

text \<open>\<open>segment_table->segment_file_handle[ segment_number ]\<close>.\<close>

definition segment_file_handle_of ::
  "segment_table \<Rightarrow> int \<Rightarrow> undefined_behaviour + pointer" where
  "segment_file_handle_of table segment_number =
     (case st_segment_file_handle table of
        None \<Rightarrow> Inl NULL_DEREFERENCE
      | Some handles \<Rightarrow> element handles segment_number)"

subsection \<open>Writing an existing chunk\<close>

text \<open>
  Modelled from the spec: \<open>sizeof( ewfx_delta_chunk_header_t )\<close>; the header that declares
  the structure is not part of the file and the specification names it without its size,
  so it is the first argument of \<open>libewf_write_io_handle_write_existing_chunk\<close>.

  The part of \<open>libewf_write_io_handle_write_existing_chunk\<close> for an existing last delta
  segment file (\<open>segment_number != 0\<close>): it gives \<open>result\<close>, the handle of the delta
  segment file and the bytes written.
\<close>

definition write_existing_chunk_last_delta_segment ::
  "'x io_environment \<Rightarrow> int \<Rightarrow> int \<Rightarrow> 'x run \<Rightarrow> (failure + int \<times> pointer \<times> int) \<times> 'x run" where
  "write_existing_chunk_last_delta_segment env segment_number chunk_size' s =
     (case segment_file_handle_of (delta_segment_table_of (fst s)) segment_number of
        Inl u \<Rightarrow> (Inl (Undefined u), s)
      | Inr segment_file_handle \<Rightarrow>
          if segment_file_handle = NULL then (Inl (Error RUNTIME_ERROR_VALUE_MISSING), s)
          else case handle_at (fst s) segment_file_handle of
            Inl u \<Rightarrow> (Inl (Undefined u), s)
          | Inr handle \<Rightarrow>
             (case sfh_section_list handle of
                None \<Rightarrow> (Inl (Error RUNTIME_ERROR_VALUE_MISSING), s)
              | Some section_list \<Rightarrow>
                  if section_list = [] then (Inl (Error RUNTIME_ERROR_VALUE_MISSING), s)
                  else
                   (let last_list_element = last section_list
                    in if le_value last_list_element = NULL
                       then (Inl (Error RUNTIME_ERROR_VALUE_MISSING), s)
                       else
                     (let last_section_start_offset = le_start_offset last_list_element
                      in case perform env (Pool_get_offset segment_file_handle) s of
                        (got, segment_file_offset, s) \<Rightarrow>
                          if got \<noteq> 1 then (Inl (Error RUNTIME_ERROR_GET_FAILED), s)
                          else case (if segment_file_offset \<noteq> last_section_start_offset
                                     then perform env (Pool_seek_offset segment_file_handle
                                            last_section_start_offset) s
                                     else (0, 0, s)) of
                            (sought, _, s) \<Rightarrow>
                              if segment_file_offset \<noteq> last_section_start_offset
                                 \<and> sought = - 1
                              then (Inl (Error IO_ERROR_SEEK_FAILED), s)
                              else
                               (let segment_file_offset =
                                      s64 (u64 (u64 (u64 (u64 last_section_start_offset
                                             + chunk_size') + sizeof_ewf_crc_t)
                                           + sizeof_ewf_section_t))
                                in if segment_file_offset
                                      > s64 (wio_segment_file_size (write_io_handle_of (fst s)))
                                   then case perform env
                                          (Segment_file_write_last_section segment_file_handle 0)
                                          s of
                                     (write_count, _, s) \<Rightarrow>
                                       if write_count = - 1
                                       then (Inl (Error IO_ERROR_WRITE_FAILED), s)
                                       else (Inr (0, segment_file_handle, s64 write_count), s)
                                   else case perform env
                                          (List_remove_element segment_file_handle
                                             (le_element last_list_element)) s of
                                     (removed, _, s) \<Rightarrow>
                                       if removed \<noteq> 1
                                       then (Inl (Error RUNTIME_ERROR_REMOVE_FAILED), s)
                                       else case perform env
                                              (Section_list_values_free
                                                 (le_value last_list_element)) s of
                                         (freed, _, s) \<Rightarrow>
                                           case perform env
                                                  (Memory_free_list_element
                                                     (le_element last_list_element)) s of
                                             (_, _, s) \<Rightarrow>
                                               if freed \<noteq> 1
                                               then (Inl (Error RUNTIME_ERROR_FINALIZE_FAILED), s)
                                               else (Inr (1, segment_file_handle, 0), s))))))"

text \<open>
  The part for \<open>result == 0\<close>: a new delta segment file is created and started. It gives
  the handle of the new segment file and the bytes written.
\<close>

definition write_existing_chunk_new_delta_segment ::
  "'x io_environment \<Rightarrow> int \<Rightarrow> int \<Rightarrow> 'x run \<Rightarrow> (failure + pointer \<times> int) \<times> 'x run" where
  "write_existing_chunk_new_delta_segment env segment_number total_write_count s =
     (let segment_number = u16 (segment_number + 1)
      in case perform env (Segment_table_create_segment_file True segment_number
                LIBEWF_SEGMENT_FILE_TYPE_DWF) s of
        (created, _, s) \<Rightarrow>
          if created \<noteq> 1 then (Inl (Error IO_ERROR_OPEN_FAILED), s)
          else case segment_file_handle_of (delta_segment_table_of (fst s)) segment_number of
            Inl u \<Rightarrow> (Inl (Undefined u), s)
          | Inr segment_file_handle \<Rightarrow>
             (case perform env (Segment_file_write_start segment_file_handle segment_number
                     LIBEWF_SEGMENT_FILE_TYPE_DWF) s of
                (write_count, _, s) \<Rightarrow>
                  if write_count = - 1 then (Inl (Error IO_ERROR_WRITE_FAILED), s)
                  else (Inr (segment_file_handle, s64 (total_write_count + write_count)), s)))"

text \<open>The delta chunk is written, and the last section unless \<open>no_section_append\<close> is 1.\<close>

definition write_existing_chunk_delta_chunk ::
  "'x io_environment \<Rightarrow> pointer \<Rightarrow> int \<Rightarrow> pointer \<Rightarrow> int \<Rightarrow> int \<Rightarrow> int \<Rightarrow> int \<Rightarrow> int
    \<Rightarrow> 'x run \<Rightarrow> (failure + int) \<times> 'x run" where
  "write_existing_chunk_delta_chunk env segment_file_handle chunk chunk_buffer chunk_size'
     chunk_crc' write_crc' no_section_append total_write_count s =
     (case perform env (Segment_file_write_delta_chunk segment_file_handle chunk chunk_buffer
             chunk_size' chunk_crc' write_crc' no_section_append) s of
        (write_count, _, s) \<Rightarrow>
          if write_count = - 1 then (Inl (Error IO_ERROR_WRITE_FAILED), s)
          else
           (let total_write_count = s64 (total_write_count + write_count)
            in if no_section_append = 0
               then case perform env (Segment_file_write_last_section segment_file_handle 1)
                           s of
                 (write_count, _, s) \<Rightarrow>
                   if write_count = - 1 then (Inl (Error IO_ERROR_WRITE_FAILED), s)
                   else (Inr (s64 (total_write_count + write_count)), s)
               else (Inr total_write_count, s)))"

text \<open>\<open>libewf_write_io_handle_write_existing_chunk\<close>.\<close>

definition libewf_write_io_handle_write_existing_chunk ::
  "int \<Rightarrow> 'x io_environment \<Rightarrow> pointer_arguments \<Rightarrow> int \<Rightarrow> pointer \<Rightarrow> int \<Rightarrow> int \<Rightarrow> int
    \<Rightarrow> int \<Rightarrow> int \<Rightarrow> 'x run \<Rightarrow> (failure + int) \<times> 'x run" where
  "libewf_write_io_handle_write_existing_chunk sizeof_ewfx_delta_chunk_header_t env args
     chunk chunk_buffer chunk_size' chunk_data_size is_compressed' chunk_crc'
     write_crc' s =
     (if \<not> arg_write_io_handle args then (Inl (Error ARGUMENT_ERROR_INVALID_VALUE), s)
      else if \<not> arg_io_handle args then (Inl (Error ARGUMENT_ERROR_INVALID_VALUE), s)
      else if \<not> arg_media_values args then (Inl (Error ARGUMENT_ERROR_INVALID_VALUE), s)
      else if \<not> arg_offset_table args then (Inl (Error ARGUMENT_ERROR_INVALID_VALUE), s)
      else case ot_chunk_offset (offset_table_of (fst s)) of
        None \<Rightarrow> (Inl (Error RUNTIME_ERROR_VALUE_MISSING), s)
      | Some chunk_offsets \<Rightarrow>
          if \<not> arg_segment_table args then (Inl (Error ARGUMENT_ERROR_INVALID_VALUE), s)
          else if st_segment_file_handle (delta_segment_table_of (fst s)) = None
          then (Inl (Error RUNTIME_ERROR_VALUE_MISSING), s)
          else if chunk \<ge> ot_amount_of_chunk_offsets (offset_table_of (fst s))
          then (Inl (Error ARGUMENT_ERROR_VALUE_OUT_OF_RANGE), s)
          else if chunk_buffer = NULL then (Inl (Error ARGUMENT_ERROR_INVALID_VALUE), s)
          else if chunk_size' = 0 then (Inl (Error ARGUMENT_ERROR_VALUE_ZERO_OR_LESS), s)
          else if chunk_size' > SSIZE_MAX
          then (Inl (Error ARGUMENT_ERROR_VALUE_EXCEEDS_MAXIMUM), s)
          else if is_compressed' \<noteq> 0
          then (Inl (Error ARGUMENT_ERROR_CONFLICTING_VALUE), s)
          else case element chunk_offsets chunk of
            Inl u \<Rightarrow> (Inl (Undefined u), s)
          | Inr offset \<Rightarrow>
             (let segment_file_handle = co_segment_file_handle offset
              in if segment_file_handle = NULL
                 then (Inl (Error RUNTIME_ERROR_VALUE_MISSING), s)
                 else case handle_at (fst s) segment_file_handle of
                   Inl u \<Rightarrow> (Inl (Undefined u), s)
                 | Inr handle \<Rightarrow>
                     if sfh_file_type handle \<noteq> LIBEWF_SEGMENT_FILE_TYPE_DWF
                     then
                      (let segment_number = u16 (st_amount (delta_segment_table_of (fst s)) - 1)
                       in if segment_number > st_amount (delta_segment_table_of (fst s))
                          then (Inl (Error RUNTIME_ERROR_VALUE_OUT_OF_RANGE), s)
                          else case (if segment_number \<noteq> 0
                                     then write_existing_chunk_last_delta_segment env
                                            segment_number chunk_size' s
                                     else (Inr (0, segment_file_handle, 0), s)) of
                            (Inl e, s) \<Rightarrow> (Inl e, s)
                          | (Inr (result, segment_file_handle, total_write_count), s) \<Rightarrow>
                             (case (if result = 0
                                    then write_existing_chunk_new_delta_segment env
                                           segment_number total_write_count s
                                    else (Inr (segment_file_handle, total_write_count), s)) of
                                (Inl e, s) \<Rightarrow> (Inl e, s)
                              | (Inr (segment_file_handle, total_write_count), s) \<Rightarrow>
                                  write_existing_chunk_delta_chunk env segment_file_handle
                                    chunk chunk_buffer chunk_size' chunk_crc'
                                    write_crc' 0 total_write_count s))
                     else
                      (let segment_file_offset =
                             s64 (u64 (u64 (u64 (co_file_offset offset)
                                    - u64 sizeof_ewfx_delta_chunk_header_t)
                                  - sizeof_ewf_section_t))
                       in case perform env (Pool_seek_offset segment_file_handle
                                 segment_file_offset) s of
                         (sought, _, s) \<Rightarrow>
                           if sought = - 1 then (Inl (Error IO_ERROR_SEEK_FAILED), s)
                           else write_existing_chunk_delta_chunk env segment_file_handle
                                  chunk chunk_buffer chunk_size' chunk_crc'
                                  write_crc' 1 0 s)))"

subsection \<open>Writing a new chunk\<close>

text \<open>
  An error of a planner function called by a write function is the first error set; where
  the planner function returns \<open>-1\<close> and sets none, the error of the caller is.
\<close>

definition first_error :: "liberror \<Rightarrow> failure \<Rightarrow> failure" where
  "first_error code e = (case e of Failed \<Rightarrow> Error code | _ \<Rightarrow> e)"

text \<open>
  The test of \<open>libewf_write_io_handle_write_new_chunk\<close> for a chunk that is already set:
  \<open>chunk < amount_of_chunk_offsets && chunk_offset != NULL
  && chunk_offset[ chunk ].segment_file_handle != NULL\<close>.
\<close>

definition chunk_already_set :: "offset_table \<Rightarrow> int \<Rightarrow> undefined_behaviour + bool" where
  "chunk_already_set table chunk =
     (if chunk < ot_amount_of_chunk_offsets table
      then case ot_chunk_offset table of
        None \<Rightarrow> Inr False
      | Some chunk_offsets \<Rightarrow>
         (case element chunk_offsets chunk of
            Inl u \<Rightarrow> Inl u
          | Inr offset \<Rightarrow> Inr (co_segment_file_handle offset \<noteq> NULL))
      else Inr False)"

text \<open>
  The test for a new segment file:
  \<open>segment_number == 0 || segment_file_handle[ segment_number ]->write_open == 0\<close>.
\<close>

definition new_segment_file_needed :: "'x world \<Rightarrow> int \<Rightarrow> undefined_behaviour + bool" where
  "new_segment_file_needed w segment_number =
     (if segment_number = 0 then Inr True
      else case segment_file_handle_of (segment_table_of w) segment_number of
        Inl u \<Rightarrow> Inl u
      | Inr segment_file_handle \<Rightarrow>
         (case handle_at w segment_file_handle of
            Inl u \<Rightarrow> Inl u
          | Inr handle \<Rightarrow> Inr (sfh_write_open handle = 0)))"

text \<open>The headers are created if there is none: the header values first if there are none.\<close>

definition write_new_chunk_header_sections ::
  "'x io_environment \<Rightarrow> 'x run \<Rightarrow> (failure + unit) \<times> 'x run" where
  "write_new_chunk_header_sections env s =
     (let sections = header_sections_of (fst s)
      in if hs_header sections = NULL \<and> hs_header2 sections = NULL
            \<and> hs_xheader sections = NULL
         then case (if header_values_of (fst s) = NULL
                    then case perform env Values_table_initialize s of
                      (initialized, _, s) \<Rightarrow>
                        if initialized \<noteq> 1
                        then (Inl (Error RUNTIME_ERROR_INITIALIZE_FAILED), s)
                        else case perform env Header_values_initialize s of
                          (initialized, _, s) \<Rightarrow>
                            if initialized \<noteq> 1
                            then (Inl (Error RUNTIME_ERROR_INITIALIZE_FAILED), s)
                            else (Inr (), s)
                    else (Inr (), s)) of
           (Inl e, s) \<Rightarrow> (Inl e, s)
         | (Inr _, s) \<Rightarrow>
            (case perform env Header_sections_create s of
               (created, _, s) \<Rightarrow>
                 if created = - 1 then (Inl (Error RUNTIME_ERROR_INITIALIZE_FAILED), s)
                 else (Inr (), s))
         else (Inr (), s))"

text \<open>
  The amount of chunks per segment is calculated for a segment file that has no chunks
  yet, and is the amount of chunks of the segment file otherwise.
\<close>

definition write_new_chunk_chunks_per_segment ::
  "int \<Rightarrow> 'x run \<Rightarrow> (failure + unit) \<times> 'x run" where
  "write_new_chunk_chunks_per_segment segment_number s =
     (case segment_file_handle_of (segment_table_of (fst s)) segment_number of
        Inl u \<Rightarrow> (Inl (Undefined u), s)
      | Inr segment_file_handle \<Rightarrow>
         (case handle_at (fst s) segment_file_handle of
            Inl u \<Rightarrow> (Inl (Undefined u), s)
          | Inr handle \<Rightarrow>
              if sfh_amount_of_chunks handle = 0
              then
               (let h = write_io_handle_of (fst s)
                in case libewf_write_io_handle_calculate_chunks_per_segment True
                          (u64 (wio_remaining_segment_file_size h))
                          (wio_maximum_section_amount_of_chunks h)
                          (wio_segment_amount_of_chunks h) (wio_amount_of_chunks h)
                          (Some (media_values_of (fst s))) (io_format (io_handle_of (fst s)))
                          (io_ewf_format (io_handle_of (fst s)))
                          (wio_unrestrict_offset_amount h) of
                     Inl e \<Rightarrow> (Inl (first_error RUNTIME_ERROR_GET_FAILED e), s)
                   | Inr calculated \<Rightarrow>
                       (Inr (), update_write_io_handle
                                  (\<lambda>h. h\<lparr>wio_chunks_per_segment := calculated\<rparr>) s))
              else (Inr (), update_write_io_handle
                              (\<lambda>h. h\<lparr>wio_chunks_per_segment := sfh_amount_of_chunks handle\<rparr>)
                              s)))"

text \<open>
  The part of \<open>libewf_write_io_handle_write_new_chunk\<close> that creates a new segment file.
  It gives the number of the new segment file and the bytes written. The counts of bytes
  are 64-bit signed values: their arithmetic is written with \<open>s64\<close>.
\<close>

definition write_new_chunk_segment_file ::
  "'x io_environment \<Rightarrow> pointer_arguments \<Rightarrow> int \<Rightarrow> 'x run
    \<Rightarrow> (failure + int \<times> int) \<times> 'x run" where
  "write_new_chunk_segment_file env args segment_number s =
     (if \<not> arg_header_sections args then (Inl (Error ARGUMENT_ERROR_INVALID_VALUE), s)
      else case write_new_chunk_header_sections env s of
        (Inl e, s) \<Rightarrow> (Inl e, s)
      | (Inr _, s) \<Rightarrow>
         (let s = update_write_io_handle
                    (\<lambda>h. h\<lparr>wio_create_chunks_section := 1, wio_chunks_section_number := 0,
                            wio_chunks_per_chunks_section := 0,
                            wio_segment_amount_of_chunks := 0\<rparr>) s;
              segment_number = u16 (segment_number + 1)
          in case perform env (Segment_table_create_segment_file False segment_number
                    LIBEWF_SEGMENT_FILE_TYPE_EWF) s of
            (created, _, s) \<Rightarrow>
              if created \<noteq> 1 then (Inl (Error IO_ERROR_OPEN_FAILED), s)
              else
               (let s = update_write_io_handle
                          (\<lambda>h. h\<lparr>wio_remaining_segment_file_size :=
                                    s64 (s64 (wio_segment_file_size h)
                                         - sizeof_ewf_section_t)\<rparr>) s
                in case segment_file_handle_of (segment_table_of (fst s)) segment_number of
                  Inl u \<Rightarrow> (Inl (Undefined u), s)
                | Inr segment_file_handle \<Rightarrow>
                   (case perform env (Segment_file_write_start segment_file_handle
                           segment_number LIBEWF_SEGMENT_FILE_TYPE_EWF) s of
                      (write_count, _, s) \<Rightarrow>
                        if write_count = - 1 then (Inl (Error IO_ERROR_WRITE_FAILED), s)
                        else
                         (let s = update_write_io_handle
                                    (\<lambda>h. h\<lparr>wio_write_count :=
                                              s64 (wio_write_count h + write_count),
                                            wio_remaining_segment_file_size :=
                                              s64 (wio_remaining_segment_file_size h
                                                   - write_count)\<rparr>) s
                          in case write_new_chunk_chunks_per_segment segment_number s of
                            (Inl e, s) \<Rightarrow> (Inl e, s)
                          | (Inr _, s) \<Rightarrow> (Inr (segment_number, s64 write_count), s))))))"

text \<open>
  \<open>memory_reallocate\<close> of the table offsets to the given amount of offsets, where the
  table has fewer. The return value of the call is the address of the new table.
\<close>

definition write_new_chunk_table_offsets ::
  "'x io_environment \<Rightarrow> int \<Rightarrow> 'x run \<Rightarrow> (failure + unit) \<times> 'x run" where
  "write_new_chunk_table_offsets env amount s =
     (if wio_amount_of_table_offsets (write_io_handle_of (fst s)) < amount
      then case perform env (Memory_reallocate_table_offsets
                  (u64 (sizeof_ewf_table_offset_t * amount))) s of
        (reallocation, _, s) \<Rightarrow>
          if reallocation = 0 then (Inl (Error MEMORY_ERROR_INSUFFICIENT), s)
          else (Inr (), update_write_io_handle
                          (\<lambda>h. h\<lparr>wio_table_offsets := nat reallocation,
                                  wio_amount_of_table_offsets := amount\<rparr>) s)
      else (Inr (), s))"

text \<open>
  The part that creates a chunks section; it gives the bytes written so far. The offset
  \<open>libbfio_pool_get_offset\<close> gives is stored in \<open>chunks_section_offset\<close> where the call
  succeeds. A failure of \<open>libewf_segment_file_write_chunks_section_start\<close> sets no error.
\<close>

definition write_new_chunk_chunks_section ::
  "'x io_environment \<Rightarrow> int \<Rightarrow> int \<Rightarrow> 'x run \<Rightarrow> (failure + int) \<times> 'x run" where
  "write_new_chunk_chunks_section env segment_number total_write_count s =
     (let s = update_write_io_handle
                (\<lambda>h. h\<lparr>wio_create_chunks_section := 0, wio_section_amount_of_chunks := 0,
                        wio_chunks_section_write_count := 0\<rparr>) s;
          reserved =
            (if io_ewf_format (io_handle_of (fst s)) = EWF_FORMAT_S01
             then sizeof_ewf_section_t
             else if io_format (io_handle_of (fst s)) = LIBEWF_FORMAT_ENCASE1
             then sizeof_ewf_section_t + sizeof_ewf_crc_t
             else 3 * sizeof_ewf_section_t + 2 * sizeof_ewf_crc_t);
          s = update_write_io_handle
                (\<lambda>h. h\<lparr>wio_remaining_segment_file_size :=
                          s64 (wio_remaining_segment_file_size h - reserved)\<rparr>) s
      in case segment_file_handle_of (segment_table_of (fst s)) segment_number of
        Inl u \<Rightarrow> (Inl (Undefined u), s)
      | Inr segment_file_handle \<Rightarrow>
         (case handle_at (fst s) segment_file_handle of
            Inl u \<Rightarrow> (Inl (Undefined u), s)
          | Inr _ \<Rightarrow>
             (case perform env (Pool_get_offset segment_file_handle) s of
                (got, offset, s) \<Rightarrow>
                  if got \<noteq> 1 then (Inl (Error RUNTIME_ERROR_GET_FAILED), s)
                  else
                   (let s = update_write_io_handle
                              (\<lambda>h. h\<lparr>wio_chunks_section_offset := offset,
                                      wio_chunks_section_number :=
                                        u8 (wio_chunks_section_number h + 1)\<rparr>) s
                    in case write_new_chunk_chunks_per_segment segment_number s of
                      (Inl e, s) \<Rightarrow> (Inl e, s)
                    | (Inr _, s) \<Rightarrow>
                       (let h = write_io_handle_of (fst s)
                        in case libewf_write_io_handle_calculate_chunks_per_chunks_section
                                  True (wio_maximum_section_amount_of_chunks h)
                                  (wio_chunks_per_segment h) (wio_chunks_section_number h)
                                  (wio_unrestrict_offset_amount h) of
                          Inl e \<Rightarrow> (Inl (first_error RUNTIME_ERROR_GET_FAILED e), s)
                        | Inr calculated \<Rightarrow>
                           (let s = update_write_io_handle
                                      (\<lambda>h. h\<lparr>wio_chunks_per_chunks_section :=
                                                calculated\<rparr>) s
                            in case write_new_chunk_table_offsets env calculated s of
                              (Inl e, s) \<Rightarrow> (Inl e, s)
                            | (Inr _, s) \<Rightarrow>
                               (case segment_file_handle_of (segment_table_of (fst s))
                                       segment_number of
                                  Inl u \<Rightarrow> (Inl (Undefined u), s)
                                | Inr segment_file_handle \<Rightarrow>
                                   (case perform env
                                           (Segment_file_write_chunks_section_start
                                              segment_file_handle
                                              (wio_amount_of_chunks
                                                 (write_io_handle_of (fst s)))
                                              (wio_chunks_per_chunks_section
                                                 (write_io_handle_of (fst s)))) s of
                                      (write_count, _, s) \<Rightarrow>
                                        if write_count = - 1 then (Inl Failed, s)
                                        else
                                         (Inr (s64 (total_write_count + write_count)),
                                          update_write_io_handle
                                            (\<lambda>h. h\<lparr>wio_write_count :=
                                                      s64 (wio_write_count h + write_count),
                                                    wio_remaining_segment_file_size :=
                                                      s64 (wio_remaining_segment_file_size h
                                                           - write_count)\<rparr>) s)))))))))"

text \<open>
  The part that closes the segment file where it is full and not the last one; it gives
  the bytes written.
\<close>

definition write_new_chunk_segment_file_full ::
  "'x io_environment \<Rightarrow> int \<Rightarrow> int \<Rightarrow> 'x run \<Rightarrow> (failure + int) \<times> 'x run" where
  "write_new_chunk_segment_file_full env segment_number total_write_count s =
     (let h = write_io_handle_of (fst s);
          media = media_values_of (fst s)
      in case libewf_write_io_handle_test_segment_file_full
                (wio_remaining_segment_file_size h) (wio_segment_amount_of_chunks h)
                (Some media) (wio_input_write_count h) (wio_chunks_per_segment h)
                (wio_amount_of_chunks h) (io_format (io_handle_of (fst s)))
                (io_ewf_format (io_handle_of (fst s))) of
        Inl e \<Rightarrow> (Inl (first_error RUNTIME_ERROR_GET_FAILED e), s)
      | Inr result \<Rightarrow>
          if result = 1
             \<and> (media_size media = 0 \<or> wio_input_write_count h < s64 (media_size media))
          then case segment_file_handle_of (segment_table_of (fst s)) segment_number of
            Inl u \<Rightarrow> (Inl (Undefined u), s)
          | Inr segment_file_handle \<Rightarrow>
             (case perform env (Segment_file_write_close segment_file_handle segment_number
                     (wio_segment_amount_of_chunks h) 0) s of
                (write_count, _, s) \<Rightarrow>
                  if write_count = - 1 then (Inl (Error IO_ERROR_WRITE_FAILED), s)
                  else (Inr (s64 (total_write_count + write_count)),
                        update_write_io_handle
                          (\<lambda>h. h\<lparr>wio_write_count :=
                                    s64 (wio_write_count h + write_count)\<rparr>) s))
          else (Inr total_write_count, s))"

text \<open>
  The part that closes the chunks section where it is full, and then the segment file
  where that is full; it gives the bytes written.
\<close>

definition write_new_chunk_chunks_section_full ::
  "'x io_environment \<Rightarrow> int \<Rightarrow> int \<Rightarrow> int \<Rightarrow> 'x run \<Rightarrow> (failure + int) \<times> 'x run" where
  "write_new_chunk_chunks_section_full env segment_number segment_file_offset
     total_write_count s =
     (let h = write_io_handle_of (fst s)
      in case libewf_write_io_handle_test_chunks_section_full
                (wio_chunks_section_offset h) (wio_remaining_segment_file_size h)
                (Some (media_values_of (fst s))) (wio_input_write_count h)
                segment_file_offset (wio_maximum_section_amount_of_chunks h)
                (wio_section_amount_of_chunks h) (wio_amount_of_chunks h)
                (wio_chunks_per_chunks_section h) (io_format (io_handle_of (fst s)))
                (io_ewf_format (io_handle_of (fst s))) (wio_unrestrict_offset_amount h) of
        Inl e \<Rightarrow> (Inl (first_error RUNTIME_ERROR_GET_FAILED e), s)
      | Inr result \<Rightarrow>
          if result = 1
          then case write_new_chunk_table_offsets env (wio_section_amount_of_chunks h) s of
            (Inl e, s) \<Rightarrow> (Inl e, s)
          | (Inr _, s) \<Rightarrow>
             (case segment_file_handle_of (segment_table_of (fst s)) segment_number of
                Inl u \<Rightarrow> (Inl (Undefined u), s)
              | Inr segment_file_handle \<Rightarrow>
                 (let h = write_io_handle_of (fst s)
                  in case perform env (Segment_file_write_chunks_correction
                            segment_file_handle (wio_chunks_section_offset h)
                            (u64 (wio_chunks_section_write_count h))
                            (wio_amount_of_chunks h) (wio_section_amount_of_chunks h)) s of
                    (write_count, _, s) \<Rightarrow>
                      if write_count = - 1 then (Inl (Error IO_ERROR_WRITE_FAILED), s)
                      else write_new_chunk_segment_file_full env segment_number
                             (s64 (total_write_count + write_count))
                             (update_write_io_handle
                                (\<lambda>h. h\<lparr>wio_write_count :=
                                          s64 (wio_write_count h + write_count),
                                        wio_create_chunks_section := 1,
                                        wio_chunks_section_offset := 0\<rparr>) s)))
          else (Inr total_write_count, s))"

text \<open>
  The part that writes the chunk data and updates the counters; it gives the bytes
  written by the whole call.
\<close>

definition write_new_chunk_data ::
  "'x io_environment \<Rightarrow> int \<Rightarrow> int \<Rightarrow> pointer \<Rightarrow> int \<Rightarrow> int \<Rightarrow> int \<Rightarrow> int \<Rightarrow> int \<Rightarrow> int
    \<Rightarrow> 'x run \<Rightarrow> (failure + int) \<times> 'x run" where
  "write_new_chunk_data env segment_number chunk chunk_buffer chunk_size' chunk_data_size
     is_compressed' chunk_crc' write_crc' total_write_count s =
     (case segment_file_handle_of (segment_table_of (fst s)) segment_number of
        Inl u \<Rightarrow> (Inl (Undefined u), s)
      | Inr segment_file_handle \<Rightarrow>
         (case perform env (Segment_file_write_chunks_data segment_file_handle chunk
                 chunk_buffer chunk_size' is_compressed' chunk_crc' write_crc') s of
            (write_count, _, s) \<Rightarrow>
              if write_count \<le> - 1 then (Inl (Error IO_ERROR_WRITE_FAILED), s)
              else
               (let s = update_write_io_handle
                          (\<lambda>h. h\<lparr>wio_input_write_count :=
                                    s64 (wio_input_write_count h + chunk_data_size),
                                  wio_write_count := s64 (wio_write_count h + write_count),
                                  wio_chunks_section_write_count :=
                                    s64 (wio_chunks_section_write_count h + write_count),
                                  wio_remaining_segment_file_size :=
                                    s64 (s64 (wio_remaining_segment_file_size h - write_count)
                                         - 2 * sizeof_ewf_table_offset_t),
                                  wio_segment_amount_of_chunks :=
                                    u32 (wio_segment_amount_of_chunks h + 1),
                                  wio_section_amount_of_chunks :=
                                    u32 (wio_section_amount_of_chunks h + 1),
                                  wio_amount_of_chunks :=
                                    u32 (wio_amount_of_chunks h + 1)\<rparr>) s
                in case segment_file_handle_of (segment_table_of (fst s)) segment_number of
                  Inl u \<Rightarrow> (Inl (Undefined u), s)
                | Inr segment_file_handle \<Rightarrow>
                   (case handle_at (fst s) segment_file_handle of
                      Inl u \<Rightarrow> (Inl (Undefined u), s)
                    | Inr _ \<Rightarrow>
                       (case perform env (Pool_get_offset segment_file_handle) s of
                          (got, segment_file_offset, s) \<Rightarrow>
                            if got \<noteq> 1 then (Inl (Error RUNTIME_ERROR_GET_FAILED), s)
                            else write_new_chunk_chunks_section_full env segment_number
                                   segment_file_offset
                                   (s64 (total_write_count + write_count)) s)))))"

text \<open>
  \<open>libewf_write_io_handle_write_new_chunk\<close>. The arguments \<open>hash_values\<close>,
  \<open>hash_sections\<close>, \<open>sessions\<close> and \<open>acquiry_errors\<close> are only passed on to
  \<open>libewf_segment_file_write_close\<close>.
\<close>

definition libewf_write_io_handle_write_new_chunk ::
  "'x io_environment \<Rightarrow> pointer_arguments \<Rightarrow> int \<Rightarrow> pointer \<Rightarrow> int \<Rightarrow> int \<Rightarrow> int \<Rightarrow> int
    \<Rightarrow> int \<Rightarrow> 'x run \<Rightarrow> (failure + int) \<times> 'x run" where
  "libewf_write_io_handle_write_new_chunk env args chunk chunk_buffer chunk_size'
     chunk_data_size is_compressed' chunk_crc' write_crc' s =
     (if \<not> arg_write_io_handle args then (Inl (Error ARGUMENT_ERROR_INVALID_VALUE), s)
      else if \<not> arg_io_handle args then (Inl (Error ARGUMENT_ERROR_INVALID_VALUE), s)
      else if \<not> arg_media_values args then (Inl (Error ARGUMENT_ERROR_INVALID_VALUE), s)
      else if \<not> arg_offset_table args then (Inl (Error ARGUMENT_ERROR_INVALID_VALUE), s)
      else if \<not> arg_segment_table args then (Inl (Error ARGUMENT_ERROR_INVALID_VALUE), s)
      else if st_segment_file_handle (segment_table_of (fst s)) = None
      then (Inl (Error RUNTIME_ERROR_VALUE_MISSING), s)
      else if \<not> arg_header_values args then (Inl (Error ARGUMENT_ERROR_INVALID_VALUE), s)
      else case chunk_already_set (offset_table_of (fst s)) chunk of
        Inl u \<Rightarrow> (Inl (Undefined u), s)
      | Inr already_set \<Rightarrow>
          if already_set then (Inl (Error RUNTIME_ERROR_VALUE_ALREADY_SET), s)
          else if wio_write_finalized (write_io_handle_of (fst s)) = 1 then (Inr 0, s)
          else case (if ot_amount_of_chunk_offsets (offset_table_of (fst s))
                          < amount_of_chunks (media_values_of (fst s))
                     then perform env (Offset_table_resize
                            (amount_of_chunks (media_values_of (fst s)))) s
                     else (1, 0, s)) of
            (resized, _, s) \<Rightarrow>
              if resized \<noteq> 1 then (Inl (Error RUNTIME_ERROR_RESIZE_FAILED), s)
              else if chunk_buffer = NULL then (Inl (Error ARGUMENT_ERROR_INVALID_VALUE), s)
              else if chunk_size' = 0 then (Inl (Error ARGUMENT_ERROR_VALUE_ZERO_OR_LESS), s)
              else if chunk_size' > SSIZE_MAX
              then (Inl (Error ARGUMENT_ERROR_VALUE_EXCEEDS_MAXIMUM), s)
              else if media_size (media_values_of (fst s)) \<noteq> 0
                      \<and> wio_input_write_count (write_io_handle_of (fst s))
                          \<ge> s64 (media_size (media_values_of (fst s)))
              then (Inr 0, s)
              else
               (let segment_number = u16 (st_amount (segment_table_of (fst s)) - 1)
                in if segment_number > st_amount (segment_table_of (fst s))
                   then (Inl (Error ARGUMENT_ERROR_VALUE_OUT_OF_RANGE), s)
                   else case new_segment_file_needed (fst s) segment_number of
                     Inl u \<Rightarrow> (Inl (Undefined u), s)
                   | Inr needed \<Rightarrow>
                      (case (if needed
                             then write_new_chunk_segment_file env args segment_number s
                             else (Inr (segment_number, 0), s)) of
                         (Inl e, s) \<Rightarrow> (Inl e, s)
                       | (Inr (segment_number, total_write_count), s) \<Rightarrow>
                          (case (if wio_create_chunks_section (write_io_handle_of (fst s)) = 1
                                 then write_new_chunk_chunks_section env segment_number
                                        total_write_count s
                                 else (Inr total_write_count, s)) of
                             (Inl e, s) \<Rightarrow> (Inl e, s)
                           | (Inr total_write_count, s) \<Rightarrow>
                               write_new_chunk_data env segment_number chunk chunk_buffer
                                 chunk_size' chunk_data_size is_compressed' chunk_crc'
                                 write_crc' total_write_count s))))"

subsection \<open>An environment to run the write functions in\<close>

text \<open>
  The sample environment answers every call with success. The creation of a segment file
  with the number \<open>n\<close> puts an open handle with an empty section list at the address
  \<open>1000 + n\<close> and enters it in the table; the resize of the offset table appends entries
  without a segment file handle; the current offset of every file is 100; the removal of
  an element takes it out of the section list of the handle.
\<close>

definition sample_create_segment_file :: "int \<Rightarrow> segment_table \<Rightarrow> segment_table" where
  "sample_create_segment_file segment_number table =
     \<lparr>st_amount = segment_number + 1,
      st_segment_file_handle =
        Some (take (nat segment_number) ((case st_segment_file_handle table of None \<Rightarrow> [] | Some handles \<Rightarrow> handles))
              @ [1000 + nat segment_number])\<rparr>"

fun sample_io_environment :: "call \<Rightarrow> unit world \<Rightarrow> int \<times> int \<times> unit world" where
  "sample_io_environment (Segment_table_create_segment_file is_delta segment_number file_type)
     w =
     (let opened = (1000 + nat segment_number,
                    \<lparr>sfh_file_type = file_type, sfh_write_open = 1, sfh_amount_of_chunks = 0,
                     sfh_section_list = Some []\<rparr>)
      in (1, 0,
          if is_delta
          then w\<lparr>delta_segment_table_of :=
                    sample_create_segment_file segment_number (delta_segment_table_of w),
                  segment_file_handles := opened # segment_file_handles w\<rparr>
          else w\<lparr>segment_table_of :=
                    sample_create_segment_file segment_number (segment_table_of w),
                  segment_file_handles := opened # segment_file_handles w\<rparr>))"
| "sample_io_environment (Offset_table_resize amount) w =
     (let chunk_offsets = (case ot_chunk_offset (offset_table_of w) of
                             None \<Rightarrow> [] | Some chunk_offsets \<Rightarrow> chunk_offsets)
      in (1, 0,
          w\<lparr>offset_table_of :=
              \<lparr>ot_amount_of_chunk_offsets = amount,
               ot_chunk_offset =
                 Some (chunk_offsets
                       @ replicate (nat amount - length chunk_offsets)
                           \<lparr>co_segment_file_handle = NULL, co_file_offset = 0\<rparr>)\<rparr>\<rparr>))"
| "sample_io_environment (Pool_get_offset segment_file_handle) w = (1, 100, w)"
| "sample_io_environment (List_remove_element segment_file_handle removed) w =
     (1, 0,
      w\<lparr>segment_file_handles :=
          map (\<lambda>(p, handle).
                 if p = segment_file_handle
                 then (p, handle\<lparr>sfh_section_list :=
                                    map_option (filter (\<lambda>e. le_element e \<noteq> removed))
                                      (sfh_section_list handle)\<rparr>)
                 else (p, handle))
            (segment_file_handles w)\<rparr>)"
| "sample_io_environment c w = (1, 0, w)"

text \<open>The sample environment with one call that fails.\<close>

definition failing_io_environment ::
  "call \<Rightarrow> call \<Rightarrow> unit world \<Rightarrow> int \<times> int \<times> unit world" where
  "failing_io_environment failing c w =
     (if c = failing then (- 1, 0, w) else sample_io_environment c w)"

text \<open>
  The sample world: media of two chunks of 64 bytes, a segment file size of 1000 bytes,
  the first chunk in the segment file at the address 200, and a delta segment file at the
  address 300 whose last section starts at the given offset (the element at the address
  320, its values at the address 321). The write io handle has the
  given \<open>write_finalized\<close> flag and the given count of input bytes written.
\<close>

definition sample_world :: "int \<Rightarrow> int \<Rightarrow> int \<Rightarrow> unit world" where
  "sample_world last_section_start_offset finalized input_write_count =
     \<lparr>write_io_handle_of =
        cleared_write_io_handle
          \<lparr>wio_input_write_count := input_write_count,
           wio_maximum_segment_file_size := INT32_MAX, wio_segment_file_size := 1000,
           wio_remaining_segment_file_size := 1000, wio_delta_segment_file_size := INT64_MAX,
           wio_maximum_section_amount_of_chunks := EWF_MAXIMUM_OFFSETS_IN_TABLE,
           wio_write_finalized := finalized\<rparr>,
      io_handle_of =
        \<lparr>io_format = LIBEWF_FORMAT_ENCASE5, io_ewf_format = EWF_FORMAT_E01,
         io_compression_level = EWF_COMPRESSION_NONE\<rparr>,
      media_values_of = \<lparr>media_size = 128, chunk_size = 64, amount_of_chunks = 2\<rparr>,
      offset_table_of =
        \<lparr>ot_amount_of_chunk_offsets = 1,
         ot_chunk_offset = Some [\<lparr>co_segment_file_handle = 200, co_file_offset = 13\<rparr>]\<rparr>,
      segment_table_of = \<lparr>st_amount = 2, st_segment_file_handle = Some [NULL, 200]\<rparr>,
      delta_segment_table_of = \<lparr>st_amount = 2, st_segment_file_handle = Some [NULL, 300]\<rparr>,
      header_values_of = 50,
      header_sections_of = \<lparr>hs_header = 60, hs_header2 = NULL, hs_xheader = NULL\<rparr>,
      segment_file_handles =
        [(200, \<lparr>sfh_file_type = LIBEWF_SEGMENT_FILE_TYPE_EWF, sfh_write_open = 1,
                sfh_amount_of_chunks = 0,
                sfh_section_list =
                  Some [\<lparr>le_element = 210, le_value = 211, le_start_offset = 13\<rparr>]\<rparr>),
         (300, \<lparr>sfh_file_type = LIBEWF_SEGMENT_FILE_TYPE_DWF, sfh_write_open = 1,
                sfh_amount_of_chunks = 0,
                sfh_section_list =
                  Some [\<lparr>le_element = 310, le_value = 311, le_start_offset = 13\<rparr>,
                        \<lparr>le_element = 320, le_value = 321,
                         le_start_offset = last_section_start_offset\<rparr>]\<rparr>)],
      external = ()\<rparr>"

definition sample_arguments :: pointer_arguments where
  "sample_arguments =
     \<lparr>arg_write_io_handle = True, arg_io_handle = True, arg_media_values = True,
      arg_offset_table = True, arg_segment_table = True, arg_header_values = True,
      arg_header_sections = True\<rparr>"

section \<open>Properties\<close>

subsection \<open>Conversions that change nothing, and wrap-around\<close>

lemma u32_id: "0 \<le> x \<Longrightarrow> x < 2 ^ 32 \<Longrightarrow> u32 x = x"
  by (simp add: u32_def)

lemma u64_id: "0 \<le> x \<Longrightarrow> x < 2 ^ 64 \<Longrightarrow> u64 x = x"
  by (simp add: u64_def)

lemma s64_id: "- (2 ^ 63) \<le> x \<Longrightarrow> x < 2 ^ 63 \<Longrightarrow> s64 x = x"
  by (simp add: s64_def)

lemma u64_u64: "u64 (u64 x) = u64 x"
  by (simp add: u64_def)

lemma u64_s64: "u64 (s64 x) = u64 x"
proof -
  have "((x + 2 ^ 63) mod 2 ^ 64 - 2 ^ 63) mod 2 ^ 64 = ((x + 2 ^ 63) - 2 ^ 63) mod (2 ^ 64 :: int)"
    by (rule mod_diff_left_eq)
  then show ?thesis by (simp add: u64_def s64_def)
qed

lemma s64_u64: "s64 (u64 x) = s64 x"
proof -
  have "(x mod 2 ^ 64 + 2 ^ 63) mod 2 ^ 64 = (x + 2 ^ 63) mod (2 ^ 64 :: int)"
    by (rule mod_add_left_eq)
  then show ?thesis by (simp add: u64_def s64_def)
qed

lemma u64_diff_left: "u64 (u64 a - b) = u64 (a - b)"
  by (simp add: u64_def mod_diff_left_eq)

lemma u64_diff_right: "u64 (a - u64 b) = u64 (a - b)"
  by (simp add: u64_def mod_diff_right_eq)

lemma u64_mult_left: "u64 (u64 a * b) = u64 (a * b)"
  by (simp add: u64_def mod_mult_left_eq)

lemma reserve_wraps:
  "s64 (u64 (u64 (s64 (u64 (u64 (s64 r) - u64 (u64 q * k)))) - u64 (u64 m * t)))
     = s64 (r - q * k - m * t)"
proof -
  have "u64 (u64 (s64 (u64 (u64 (s64 r) - u64 (u64 q * k)))) - u64 (u64 m * t))
          = u64 (r - q * k - m * t)"
    by (simp only: u64_u64 u64_s64 u64_diff_left u64_diff_right u64_mult_left)
  then show ?thesis
    by (metis s64_u64)
qed

lemma sdiv_nonneg: "0 \<le> a \<Longrightarrow> 0 < b \<Longrightarrow> a sdiv b = a div (b :: int)"
  by (simp add: signed_divide_int_def sgn_if)

lemma smod_nonneg: "0 \<le> a \<Longrightarrow> 0 < b \<Longrightarrow> a smod b = a mod (b :: int)"
  by (simp add: signed_modulo_int_def sgn_if)

lemma div_le_dividend: "0 \<le> a \<Longrightarrow> 0 < b \<Longrightarrow> a div b \<le> (a :: int)"
  using zdiv_mono2 [of a 1 b] by simp



subsection \<open>The estimate of the chunks per segment\<close>

lemma estimate_not_S01:
  assumes fmt: "ewf_format \<noteq> EWF_FORMAT_S01"
    and r: "0 \<le> remaining" "remaining < 2 ^ 64"
    and c: "0 \<le> chunk_size mv" "chunk_size mv < 2 ^ 32"
    and ms: "0 < max_section"
    and seg: "0 \<le> seg" "seg < 2 ^ 32"
    and ov: "reserved_overhead_spec remaining max_section mv format ewf_format unrestrict
               \<le> remaining"
    and written: "media_size mv > 0 \<longrightarrow> written \<le> amount_of_chunks mv"
  shows "libewf_write_io_handle_calculate_chunks_per_segment True remaining max_section
           seg written (Some mv) format ewf_format unrestrict =
         Inr (chunks_per_segment_spec remaining max_section seg written mv format ewf_format
                unrestrict)"
proof -
  define d where "d = chunk_size mv + 4"
  define m where "m = remaining div d"
  define q where "q = (if unrestrict = 0 then m mod max_section else 1)"
  define k :: int where "k = (if format = LIBEWF_FORMAT_ENCASE1 then 80 else 236)"
  define t :: int where "t = (if format = LIBEWF_FORMAT_ENCASE1 then 4 else 8)"
  define y where "y = remaining - q * k - m * t"
  define e where "e = y div d"
  define e' where "e' = (if media_size mv > 0 then min e (amount_of_chunks mv - written) else e)"
  have d: "4 \<le> d" "d < 2 ^ 33"
    using c by (simp_all add: d_def)
  have cost: "per_chunk_cost_spec mv ewf_format = d"
    using fmt by (simp add: per_chunk_cost_spec_def d_def)
  have divisor: "u64 (chunk_size mv + sizeof_ewf_crc_t) = d"
    using c by (simp add: sizeof_ewf_crc_t_def d_def u64_def)
  have m0: "0 \<le> m"
    using r d by (simp add: m_def pos_imp_zdiv_nonneg_iff)
  have "m \<le> remaining div 4"
    unfolding m_def using r d by (intro zdiv_mono2) simp_all
  then have m1: "m < 2 ^ 62"
    using r by simp
  have maximum: "s64 (u64 (s64 remaining) div d) = m"
    using r m0 m1 by (simp add: u64_s64 u64_id m_def [symmetric] s64_id)
  have required: "(if unrestrict = 0 then m smod max_section else 1) = q"
    using m0 ms by (simp add: q_def smod_nonneg)
  have q_spec: "required_sections_spec remaining max_section mv ewf_format unrestrict = q"
    by (auto simp: required_sections_spec_def cost q_def m_def)
  have ov_eq: "reserved_overhead_spec remaining max_section mv format ewf_format unrestrict
                 = q * k + m * t"
    using fmt
    by (simp add: reserved_overhead_spec_def Let_def cost q_spec m_def [symmetric] k_def t_def
        sizeof_ewf_section_t_def sizeof_ewf_table_offset_t_def)
  have q0: "0 \<le> q"
    using ms by (simp add: q_def)
  have "0 \<le> q * k" "0 \<le> m * t"
    using q0 m0 by (simp_all add: k_def t_def)
  then have y: "0 \<le> y" "y < 2 ^ 64"
    using ov r unfolding ov_eq y_def by linarith+
  have two_m: "s64 (2 * m) = 2 * m"
    using m0 m1 by (intro s64_id) simp_all
  have reserve1: "s64 (u64 (u64 (s64 (u64 (u64 (s64 remaining)
                    - u64 (u64 q * u64 (sizeof_ewf_section_t + sizeof_ewf_crc_t)))))
                    - u64 (u64 m * sizeof_ewf_table_offset_t)))
                  = s64 y" if "format = LIBEWF_FORMAT_ENCASE1"
  proof -
    have sizes: "u64 (sizeof_ewf_section_t + sizeof_ewf_crc_t) = 80"
      "sizeof_ewf_table_offset_t = 4"
      by (simp_all add: sizeof_ewf_section_t_def sizeof_ewf_crc_t_def
          sizeof_ewf_table_offset_t_def u64_def)
    have "remaining - q * 80 - m * 4 = y"
      using that by (simp add: y_def k_def t_def)
    then show ?thesis
      unfolding sizes reserve_wraps by (rule arg_cong)
  qed
  have reserve2: "s64 (u64 (u64 (s64 (u64 (u64 (s64 remaining)
                    - u64 (u64 q * u64 (u64 (3 * sizeof_ewf_section_t) + u64 (2 * sizeof_ewf_crc_t))))))
                    - u64 (u64 (s64 (2 * m)) * sizeof_ewf_table_offset_t)))
                  = s64 y" if "format \<noteq> LIBEWF_FORMAT_ENCASE1"
  proof -
    have sizes: "u64 (u64 (3 * sizeof_ewf_section_t) + u64 (2 * sizeof_ewf_crc_t)) = 236"
      "sizeof_ewf_table_offset_t = 4"
      by (simp_all add: sizeof_ewf_section_t_def sizeof_ewf_crc_t_def
          sizeof_ewf_table_offset_t_def u64_def)
    have "remaining - q * 236 - 2 * m * 4 = y"
      using that by (simp add: y_def k_def t_def)
    then show ?thesis
      unfolding sizes two_m reserve_wraps by (rule arg_cong)
  qed
  have e0: "0 \<le> e"
    using y d by (simp add: e_def pos_imp_zdiv_nonneg_iff)
  have "e \<le> y div 4"
    unfolding e_def using y d by (intro zdiv_mono2) simp_all
  then have e1: "e < 2 ^ 62"
    using y by simp
  have estimate: "s64 (u64 (s64 y) div d) = e"
    using y e0 e1 by (simp add: u64_s64 u64_id e_def [symmetric] s64_id)
  have e': "0 \<le> e'" "e' < 2 ^ 62"
    using e0 e1 written by (auto simp: e'_def min_def)
  have clamp: "(if media_size mv > 0
                then (if amount_of_chunks mv - written < e then amount_of_chunks mv - written else e)
                else e) = e'"
    by (auto simp: e'_def min_def)
  have total: "(if seg > 0 then s64 (e' + seg) else e') = e' + seg"
    using e' seg by (auto intro: s64_id)
  have store: "u32 (if e' + seg > UINT32_MAX then UINT32_MAX else e' + seg)
                 = min (e' + seg) (2 ^ 32 - 1)"
    using e' seg by (auto simp: UINT32_MAX_def min_def intro!: u32_id)
  have spec: "chunks_per_segment_spec remaining max_section seg written mv format ewf_format
                unrestrict = min (e' + seg) (2 ^ 32 - 1)"
    by (simp add: chunks_per_segment_spec_def Let_def ov_eq cost e'_def e_def y_def
        algebra_simps)
  have nz: "d \<noteq> 0" "max_section \<noteq> 0"
    using d ms by simp_all
  show ?thesis
  proof (cases "format = LIBEWF_FORMAT_ENCASE1")
    case True
    show ?thesis
      by (simp only: libewf_write_io_handle_calculate_chunks_per_segment_def Let_def
          option.case fmt nz eqTrueI [OF True] simp_thms if_True if_False divisor maximum
          required reserve1 [OF True] estimate clamp total store spec)
  next
    case False
    show ?thesis
      by (simp only: libewf_write_io_handle_calculate_chunks_per_segment_def Let_def
          option.case fmt nz False simp_thms if_True if_False divisor maximum
          required reserve2 [OF False] estimate clamp total store spec)
  qed
qed


lemma estimate_S01:
  assumes fmt: "ewf_format = EWF_FORMAT_S01"
    and r: "0 \<le> remaining" "remaining < 2 ^ 63"
    and c: "0 \<le> chunk_size mv" "chunk_size mv + 16 < 2 ^ 32"
    and ms: "0 < max_section"
    and seg: "0 \<le> seg" "seg < 2 ^ 32"
    and ov: "reserved_overhead_spec remaining max_section mv format ewf_format unrestrict
               \<le> remaining"
    and written: "media_size mv > 0 \<longrightarrow> written \<le> amount_of_chunks mv"
  shows "libewf_write_io_handle_calculate_chunks_per_segment True remaining max_section
           seg written (Some mv) format ewf_format unrestrict =
         Inr (chunks_per_segment_spec remaining max_section seg written mv format ewf_format
                unrestrict)"
proof -
  define d where "d = chunk_size mv + 16"
  define m where "m = remaining div d"
  define q where "q = (if unrestrict = 0 then m mod max_section else 1)"
  define y where "y = remaining - q * 76 - m * 4"
  define e where "e = y div d"
  define e' where "e' = (if media_size mv > 0 then min e (amount_of_chunks mv - written) else e)"
  have d: "16 \<le> d" "d < 2 ^ 32"
    using c by (simp_all add: d_def)
  have cost: "per_chunk_cost_spec mv ewf_format = d"
    using fmt by (simp add: per_chunk_cost_spec_def d_def)
  have divisor: "u32 (chunk_size mv + 16) = d"
    using c by (simp add: d_def u32_def)
  have m0: "0 \<le> m"
    using r d by (simp add: m_def pos_imp_zdiv_nonneg_iff)
  have "m \<le> remaining"
    unfolding m_def using r d by (intro div_le_dividend) simp_all
  then have m1: "m < 2 ^ 63"
    using r by simp
  have maximum: "s64 remaining sdiv d = m"
    using r d by (simp add: s64_id sdiv_nonneg m_def)
  have required: "(if unrestrict = 0 then m smod max_section else 1) = q"
    using m0 ms by (simp add: q_def smod_nonneg)
  have q_spec: "required_sections_spec remaining max_section mv ewf_format unrestrict = q"
    by (auto simp: required_sections_spec_def cost q_def m_def)
  have ov_eq: "reserved_overhead_spec remaining max_section mv format ewf_format unrestrict
                 = q * 76 + m * 4"
    by (simp add: reserved_overhead_spec_def Let_def cost q_spec m_def [symmetric]
        eqTrueI [OF fmt] sizeof_ewf_section_t_def sizeof_ewf_table_offset_t_def)
  have q0: "0 \<le> q"
    using ms by (simp add: q_def)
  have "0 \<le> q * 76" "0 \<le> m * 4"
    using q0 m0 by simp_all
  then have y: "0 \<le> y" "y < 2 ^ 63"
    using ov r unfolding ov_eq y_def by linarith+
  have reserve: "s64 (u64 (u64 (s64 (u64 (u64 (s64 remaining)
                    - u64 (u64 q * sizeof_ewf_section_t))))
                    - u64 (u64 m * sizeof_ewf_table_offset_t)))
                  = y"
    unfolding sizeof_ewf_section_t_def sizeof_ewf_table_offset_t_def reserve_wraps
      y_def [symmetric]
    using y by (intro s64_id) simp_all
  have e0: "0 \<le> e"
    using y d by (simp add: e_def pos_imp_zdiv_nonneg_iff)
  have "e \<le> y"
    unfolding e_def using y d by (intro div_le_dividend) simp_all
  then have e1: "e < 2 ^ 63"
    using y by simp
  have "e \<le> y div 16"
    unfolding e_def using y d by (intro zdiv_mono2) simp_all
  then have e2: "e < 2 ^ 59"
    using y by simp
  have estimate: "y sdiv d = e"
    using y d by (simp add: sdiv_nonneg e_def)
  have e': "0 \<le> e'" "e' < 2 ^ 59"
    using e0 e2 written by (auto simp: e'_def min_def)
  have clamp: "(if media_size mv > 0
                then (if amount_of_chunks mv - written < e then amount_of_chunks mv - written else e)
                else e) = e'"
    by (auto simp: e'_def min_def)
  have total: "(if seg > 0 then s64 (e' + seg) else e') = e' + seg"
    using e' seg by (auto intro: s64_id)
  have store: "u32 (if e' + seg > UINT32_MAX then UINT32_MAX else e' + seg)
                 = min (e' + seg) (2 ^ 32 - 1)"
    using e' seg by (auto simp: UINT32_MAX_def min_def intro!: u32_id)
  have spec: "chunks_per_segment_spec remaining max_section seg written mv format ewf_format
                unrestrict = min (e' + seg) (2 ^ 32 - 1)"
    by (simp add: chunks_per_segment_spec_def Let_def ov_eq cost e'_def e_def y_def
        algebra_simps)
  have nz: "d \<noteq> 0" "max_section \<noteq> 0"
    using d ms by simp_all
  show ?thesis
    by (simp only: libewf_write_io_handle_calculate_chunks_per_segment_def Let_def
        option.case eqTrueI [OF fmt] nz simp_thms if_True if_False divisor maximum
        required reserve estimate clamp total store spec)
qed


text \<open>
  C3 (as amended). With a non-\<open>NULL\<close> output pointer, non-\<open>NULL\<close> media values and a
  maximum section amount of chunks above zero, on arguments in the range of their C
  types for which the intermediate values stay in range, the function returns 1 and
  stores the estimate of the specification, saturated at \<open>2^32 - 1\<close>:
  \<open>max_chunks = remaining / (chunk_size + 16)\<close> for EWF-S01 and
  \<open>remaining / (chunk_size + 4)\<close> otherwise; the required chunk sections are 1 when
  unrestrict is set and \<open>max_chunks mod maximum_section_amount_of_chunks\<close> otherwise; the
  reserved overhead of the format is subtracted and the rest divided by the same cost per
  chunk; when \<open>media_size > 0\<close> the result is clamped to the chunks of the media that are
  not written yet; the chunks of the segment are added. In range means: the reserved
  overhead is at most the remaining size, the media has no fewer chunks than are written
  when its size is known, and for EWF-S01 \<open>remaining < 2^63\<close> and
  \<open>chunk_size + 16 < 2^32\<close>.
\<close>

theorem calculate_chunks_per_segment_estimate:
  assumes "0 \<le> remaining" "remaining < 2 ^ 64"
    and "0 \<le> chunk_size mv" "chunk_size mv < 2 ^ 32"
    and "0 < max_section"
    and "0 \<le> seg" "seg < 2 ^ 32"
    and "ewf_format = EWF_FORMAT_S01 \<longrightarrow> remaining < 2 ^ 63 \<and> chunk_size mv + 16 < 2 ^ 32"
    and "reserved_overhead_spec remaining max_section mv format ewf_format unrestrict
           \<le> remaining"
    and "media_size mv > 0 \<longrightarrow> written \<le> amount_of_chunks mv"
  shows "libewf_write_io_handle_calculate_chunks_per_segment True remaining max_section
           seg written (Some mv) format ewf_format unrestrict =
         Inr (chunks_per_segment_spec remaining max_section seg written mv format ewf_format
                unrestrict)"
proof (cases "ewf_format = EWF_FORMAT_S01")
  case True
  with assms show ?thesis
    by (intro estimate_S01) simp_all
next
  case False
  with assms show ?thesis
    by (intro estimate_not_S01) simp_all
qed



theorem calculate_chunks_per_segment_estimate_witness:
  "libewf_write_io_handle_calculate_chunks_per_segment True 1000000 16375 3 2
     (Some \<lparr>media_size = 0, chunk_size = 32768, amount_of_chunks = 0\<rparr>)
     LIBEWF_FORMAT_ENCASE5 EWF_FORMAT_E01 0 = Inr 33"
proof -
  let ?mv = "\<lparr>media_size = 0, chunk_size = 32768, amount_of_chunks = 0\<rparr>"
  have overhead: "reserved_overhead_spec 1000000 16375 ?mv LIBEWF_FORMAT_ENCASE5
                    EWF_FORMAT_E01 0 \<le> 1000000"
    by code_simp
  have format: "EWF_FORMAT_E01 = EWF_FORMAT_S01 \<longrightarrow>
                  (1000000 :: int) < 2 ^ 63 \<and> chunk_size ?mv + 16 < 2 ^ 32"
    by code_simp
  have estimate: "chunks_per_segment_spec 1000000 16375 3 2 ?mv LIBEWF_FORMAT_ENCASE5
                    EWF_FORMAT_E01 0 = 33"
    by code_simp
  show ?thesis
    using calculate_chunks_per_segment_estimate
      [of 1000000 ?mv 16375 3 EWF_FORMAT_E01 LIBEWF_FORMAT_ENCASE5 0 2, OF _ _ _ _ _ _ _
        format overhead]
    by (simp add: estimate)
qed

text \<open>
  The estimate as the claim states it, for all inputs, fails where an intermediate value
  is negative. With 5 chunks in the media and 7 written the clamp gives \<open>-2\<close> and the
  function stores \<open>4294967294\<close>. With a chunk size of 64 the reserved overhead exceeds the
  remaining size, the second division is unsigned, and the function stores \<open>2^32 - 1\<close>.
\<close>

theorem calculate_chunks_per_segment_counterexample:
  "libewf_write_io_handle_calculate_chunks_per_segment True 1000000 16375 0 7
     (Some \<lparr>media_size = 163840, chunk_size = 32768, amount_of_chunks = 5\<rparr>)
     LIBEWF_FORMAT_ENCASE5 EWF_FORMAT_E01 0 = Inr 4294967294
   \<and> chunks_per_segment_spec 1000000 16375 0 7
     \<lparr>media_size = 163840, chunk_size = 32768, amount_of_chunks = 5\<rparr>
     LIBEWF_FORMAT_ENCASE5 EWF_FORMAT_E01 0 = - 2
   \<and> libewf_write_io_handle_calculate_chunks_per_segment True 1000000 16375 0 0
     (Some \<lparr>media_size = 0, chunk_size = 64, amount_of_chunks = 0\<rparr>)
     LIBEWF_FORMAT_ENCASE5 EWF_FORMAT_E01 0 = Inr 4294967295
   \<and> chunks_per_segment_spec 1000000 16375 0 0
     \<lparr>media_size = 0, chunk_size = 64, amount_of_chunks = 0\<rparr>
     LIBEWF_FORMAT_ENCASE5 EWF_FORMAT_E01 0 = - 38060"
  by code_simp

subsection \<open>The estimate of the chunks per chunks section\<close>

text \<open>
  The product \<open>( chunks_section_number - 1 ) * maximum_section_amount_of_chunks\<close> is
  reduced modulo \<open>2^32\<close>.
\<close>

lemma chunks_per_chunks_section_wrapped:
  assumes "0 < maximum_section_amount_of_chunks" "maximum_section_amount_of_chunks < 2 ^ 32"
    and "0 \<le> chunks_per_segment" "chunks_per_segment < 2 ^ 32"
    and "1 \<le> chunks_section_number" "chunks_section_number < 2 ^ 8"
  shows "libewf_write_io_handle_calculate_chunks_per_chunks_section True
           maximum_section_amount_of_chunks chunks_per_segment chunks_section_number
           unrestrict_offset_amount =
         (let remaining = chunks_per_segment
                - ((chunks_section_number - 1) * maximum_section_amount_of_chunks) mod 2 ^ 32
          in if remaining \<le> 0 then Inl Failed
             else Inr (min (if unrestrict_offset_amount = 0
                            then min remaining maximum_section_amount_of_chunks
                            else remaining)
                           (2 ^ 31 - 1)))"
proof -
  define p where "p = ((chunks_section_number - 1) * maximum_section_amount_of_chunks) mod 2 ^ 32"
  have p_range: "0 \<le> p" "p < 2 ^ 32"
    by (simp_all add: p_def)
  have n1: "u32 (chunks_section_number - 1) = chunks_section_number - 1"
    using assms by (intro u32_id) simp_all
  have prod: "u32 (u32 (chunks_section_number - 1) * maximum_section_amount_of_chunks) = p"
    by (simp add: p_def u32_def mod_mult_left_eq)
  have sub: "s64 (chunks_per_segment - p) = chunks_per_segment - p"
    using assms p_range by (intro s64_id) simp_all
  have first: "chunks_section_number \<le> 1 \<Longrightarrow> p = 0"
    using assms by (simp add: p_def)
  have store: "0 < x \<Longrightarrow> x \<le> 2 ^ 31 - 1 \<Longrightarrow> u32 x = x" for x
    by (intro u32_id) simp_all
  show ?thesis
    using assms p_range first
    unfolding libewf_write_io_handle_calculate_chunks_per_chunks_section_def Let_def prod sub
      p_def [symmetric] INT32_MAX_def
    by (auto simp: store min_def)
qed


text \<open>
  C4 (as amended). With a non-\<open>NULL\<close> output pointer, a maximum section amount of
  chunks above zero and a chunks section number of at least 1, and provided the product
  \<open>(chunks_section_number - 1) * maximum_section_amount_of_chunks\<close> is below \<open>2^32\<close>, the
  function computes \<open>remaining = chunks_per_segment - (chunks_section_number - 1) *
  maximum_section_amount_of_chunks\<close>, returns an error when this is zero or less, clamps
  it to the maximum section amount of chunks when unrestrict is 0 and it exceeds that
  maximum, saturates it at \<open>2^31 - 1\<close>, stores it and returns 1.
\<close>

theorem chunks_per_chunks_section_estimate:
  assumes "0 < maximum_section_amount_of_chunks" "maximum_section_amount_of_chunks < 2 ^ 32"
    and "0 \<le> chunks_per_segment" "chunks_per_segment < 2 ^ 32"
    and "1 \<le> chunks_section_number" "chunks_section_number < 2 ^ 8"
    and "(chunks_section_number - 1) * maximum_section_amount_of_chunks < 2 ^ 32"
  shows "libewf_write_io_handle_calculate_chunks_per_chunks_section True
           maximum_section_amount_of_chunks chunks_per_segment chunks_section_number
           unrestrict_offset_amount =
         (let remaining = chunks_per_segment
                - (chunks_section_number - 1) * maximum_section_amount_of_chunks
          in if remaining \<le> 0 then Inl Failed
             else Inr (min (if unrestrict_offset_amount = 0
                            then min remaining maximum_section_amount_of_chunks
                            else remaining)
                           (2 ^ 31 - 1)))"
proof -
  have "0 \<le> (chunks_section_number - 1) * maximum_section_amount_of_chunks"
    using assms(1,5) by simp
  with assms(7)
  have "((chunks_section_number - 1) * maximum_section_amount_of_chunks) mod 2 ^ 32
          = (chunks_section_number - 1) * maximum_section_amount_of_chunks"
    by simp
  with chunks_per_chunks_section_wrapped [OF assms(1-6), of unrestrict_offset_amount]
  show ?thesis
    by simp
qed

theorem chunks_per_chunks_section_estimate_witness:
  "libewf_write_io_handle_calculate_chunks_per_chunks_section True 4 10 3 0 = Inr 2"
  using chunks_per_chunks_section_estimate [of 4 10 3 0]
  by simp

text \<open>
  Where the product reaches \<open>2^32\<close> the claim fails: for section 4 with a maximum of
  \<open>2^31 - 1\<close> chunks per section the unsigned 32-bit product wraps around, and the function
  stores 1 where the difference of the claim is negative.
\<close>

theorem calculate_chunks_per_chunks_section_counterexample:
  "libewf_write_io_handle_calculate_chunks_per_chunks_section True 2147483647 2147483646 4 0
     = Inr 1
   \<and> (2147483646 :: int) - (4 - 1) * 2147483647 \<le> 0"
  by code_simp

subsection \<open>The tests for a full segment file and a full chunks section\<close>

lemma chunk_and_crc_size:
  assumes "0 \<le> chunk_size mv" "chunk_size mv < 2 ^ 32"
  shows "s64 (u64 (chunk_size mv + sizeof_ewf_crc_t)) = chunk_size mv + 4"
proof -
  have "u64 (chunk_size mv + 4) = chunk_size mv + 4"
    using assms by (intro u64_id) simp_all
  moreover have "s64 (chunk_size mv + 4) = chunk_size mv + 4"
    using assms by (intro s64_id) simp_all
  ultimately show ?thesis by (simp add: sizeof_ewf_crc_t_def)
qed


text \<open>
  C5 (as amended). With non-\<open>NULL\<close> media values the function returns 1 when one of the
  following holds, and 0 otherwise: the amount of chunks of the media is not zero and
  equals the amount of chunks written; the media size is not zero and the input write
  count is at least the media size (converted to a signed 64-bit value); for EWF-S01 or
  EnCase1, the segment holds at least \<open>chunks_per_segment\<close> chunks; for every other format,
  the remaining segment file size is below the chunk size plus the 4 bytes of the CRC.
\<close>

theorem test_segment_file_full_cases:
  assumes "0 \<le> chunk_size mv" "chunk_size mv < 2 ^ 32"
  shows "libewf_write_io_handle_test_segment_file_full remaining_segment_file_size
           segment_amount_of_chunks (Some mv) input_write_count chunks_per_segment
           current_amount_of_chunks format ewf_format =
         Inr (if (amount_of_chunks mv \<noteq> 0 \<and> amount_of_chunks mv = current_amount_of_chunks)
               \<or> (media_size mv \<noteq> 0 \<and> s64 (media_size mv) \<le> input_write_count)
               \<or> ((ewf_format = EWF_FORMAT_S01 \<or> format = LIBEWF_FORMAT_ENCASE1)
                    \<and> chunks_per_segment \<le> segment_amount_of_chunks)
               \<or> (ewf_format \<noteq> EWF_FORMAT_S01 \<and> format \<noteq> LIBEWF_FORMAT_ENCASE1
                    \<and> remaining_segment_file_size < chunk_size mv + 4)
              then 1 else 0)"
  by (simp add: libewf_write_io_handle_test_segment_file_full_def
      chunk_and_crc_size [OF assms])

theorem test_segment_file_full_cases_witness:
  "libewf_write_io_handle_test_segment_file_full 10 3
     (Some \<lparr>media_size = 0, chunk_size = 64, amount_of_chunks = 0\<rparr>) 0 10 3
     LIBEWF_FORMAT_ENCASE5 EWF_FORMAT_E01 = Inr 1"
  using test_segment_file_full_cases
    [of "\<lparr>media_size = 0, chunk_size = 64, amount_of_chunks = 0\<rparr>" 10 3 0 10 3
      LIBEWF_FORMAT_ENCASE5 EWF_FORMAT_E01]
  by (simp add: EWF_FORMAT_S01_def EWF_FORMAT_E01_def LIBEWF_FORMAT_ENCASE5_def
      LIBEWF_FORMAT_ENCASE1_def)


text \<open>
  The test of the remaining size is the \<open>else\<close> branch of the test for EWF-S01 and
  EnCase1: for EWF-S01 a segment file with room for more chunks by count is not full,
  whatever its remaining size.
\<close>

theorem test_segment_file_full_counterexample:
  "libewf_write_io_handle_test_segment_file_full 10 0
     (Some \<lparr>media_size = 0, chunk_size = 64, amount_of_chunks = 0\<rparr>) 0 10 0
     LIBEWF_FORMAT_ENCASE5 EWF_FORMAT_S01 = Inr 0
   \<and> (10 :: int) < 64 + 4"
  by (simp add: libewf_write_io_handle_test_segment_file_full_def EWF_FORMAT_S01_def)


text \<open>
  C6 (as amended). With non-\<open>NULL\<close> media values, a maximum section amount of chunks
  other than zero and non-negative offsets, the function returns 0 when no chunks section
  is open (\<open>chunks_section_offset = 0\<close>); otherwise it returns 1 exactly when one of the
  following holds: all chunks of the media are written; all input is consumed; unrestrict
  is 0 and the section holds at least the maximum amount of chunks; the section holds
  more than \<open>2^31 - 1\<close> chunks; the segment file offset is more than \<open>2^31 - 1\<close> past the
  chunks section offset; for EWF-S01 or EnCase1, the section holds at least
  \<open>chunks_per_chunks_section\<close> chunks; for every other format, the remaining segment file
  size is below the chunk size plus the 4 bytes of the CRC.
\<close>

theorem test_chunks_section_full_cases:
  assumes "0 \<le> chunk_size mv" "chunk_size mv < 2 ^ 32"
    and "maximum_section_amount_of_chunks \<noteq> 0"
    and "0 \<le> segment_file_offset" "segment_file_offset \<le> INT64_MAX"
    and "0 \<le> chunks_section_offset" "chunks_section_offset \<le> INT64_MAX"
  shows "libewf_write_io_handle_test_chunks_section_full chunks_section_offset
           remaining_segment_file_size (Some mv) input_write_count segment_file_offset
           maximum_section_amount_of_chunks section_amount_of_chunks current_amount_of_chunks
           chunks_per_chunks_section format ewf_format unrestrict_offset_amount =
         Inr (if chunks_section_offset = 0 then 0
              else if (amount_of_chunks mv \<noteq> 0 \<and> amount_of_chunks mv = current_amount_of_chunks)
               \<or> (media_size mv \<noteq> 0 \<and> s64 (media_size mv) \<le> input_write_count)
               \<or> (unrestrict_offset_amount = 0
                    \<and> maximum_section_amount_of_chunks \<le> section_amount_of_chunks)
               \<or> section_amount_of_chunks > 2 ^ 31 - 1
               \<or> segment_file_offset - chunks_section_offset > 2 ^ 31 - 1
               \<or> ((ewf_format = EWF_FORMAT_S01 \<or> format = LIBEWF_FORMAT_ENCASE1)
                    \<and> chunks_per_chunks_section \<le> section_amount_of_chunks)
               \<or> (ewf_format \<noteq> EWF_FORMAT_S01 \<and> format \<noteq> LIBEWF_FORMAT_ENCASE1
                    \<and> remaining_segment_file_size < chunk_size mv + 4)
              then 1 else 0)"
proof -
  have diff: "s64 (segment_file_offset - chunks_section_offset)
                = segment_file_offset - chunks_section_offset"
    using assms by (intro s64_id) (simp_all add: INT64_MAX_def)
  show ?thesis
    using assms(3,5)
    by (simp add: libewf_write_io_handle_test_chunks_section_full_def
        chunk_and_crc_size [OF assms(1,2)] diff INT32_MAX_def)
qed

theorem test_chunks_section_full_cases_witness:
  "libewf_write_io_handle_test_chunks_section_full 100 1000
     (Some \<lparr>media_size = 0, chunk_size = 64, amount_of_chunks = 0\<rparr>) 0 2147483748 16375 5 5 10
     LIBEWF_FORMAT_ENCASE5 EWF_FORMAT_E01 0 = Inr 1"
  using test_chunks_section_full_cases
    [of "\<lparr>media_size = 0, chunk_size = 64, amount_of_chunks = 0\<rparr>" 16375 2147483748 100
      1000 0 5 5 10 LIBEWF_FORMAT_ENCASE5 EWF_FORMAT_E01 0]
  by (simp add: INT64_MAX_def)


text \<open>
  As for the segment file, the test of the remaining size does not apply to EWF-S01 and
  EnCase1.
\<close>

theorem test_chunks_section_full_counterexample:
  "libewf_write_io_handle_test_chunks_section_full 100 10
     (Some \<lparr>media_size = 0, chunk_size = 64, amount_of_chunks = 0\<rparr>) 0 200 16375 0 0 10
     LIBEWF_FORMAT_ENCASE5 EWF_FORMAT_S01 0 = Inr 0
   \<and> (10 :: int) < 64 + 4"
  by (simp add: libewf_write_io_handle_test_chunks_section_full_def EWF_FORMAT_S01_def
      INT64_MAX_def INT32_MAX_def s64_def)

subsection \<open>The chunk processor\<close>

lemma store_form:
  assumes "process_chunk_store env s mv ewf_format chunk_data_size = Inr r"
  shows "(is_compressed r = 1 \<longleftrightarrow>
            ewf_format = EWF_FORMAT_S01
            \<or> (0 < compressed_size r \<and> compressed_size r < u64 (chunk_size mv)))
       \<and> (is_compressed r = 1 \<longrightarrow> output_data r = ps_compressed_chunk_data (final_state r))
       \<and> (is_compressed r \<noteq> 1 \<longrightarrow>
            is_compressed r = 0 \<and> output_data r = ps_chunk_data (final_state r))"
  using assms
  by (auto simp: process_chunk_store_def Let_def
      split: option.splits sum.splits if_splits)

lemma process_chunk_steps:
  assumes "libewf_write_io_handle_process_chunk env m chunk_cache media_values
             compression_level compress_empty_block ewf_format chunk_data chunk_data_size
             compressed_chunk_data compressed_chunk_data_size p1 p2 p3 = Inr r"
  obtains cache mv level s where
    "chunk_cache = Some cache" "media_values = Some mv"
    "chunk_data_size \<le> u64 (chunk_size mv)"
    "process_chunk_compression_level m compression_level compress_empty_block chunk_data
       chunk_data_size = Inr level"
    "(if ewf_format = EWF_FORMAT_S01 \<or> level \<noteq> EWF_COMPRESSION_NONE
      then process_chunk_compress env
          \<lparr>ps_chunk_cache = cache, ps_memory = m, ps_chunk_data = chunk_data,
           ps_compressed_chunk_data = compressed_chunk_data,
           ps_compressed_chunk_data_size = compressed_chunk_data_size\<rparr>
          chunk_data_size level
      else Inr \<lparr>ps_chunk_cache = cache, ps_memory = m, ps_chunk_data = chunk_data,
           ps_compressed_chunk_data = compressed_chunk_data,
           ps_compressed_chunk_data_size = compressed_chunk_data_size\<rparr>) = Inr s"
    "process_chunk_store env s mv ewf_format chunk_data_size = Inr r"
proof -
  from assms obtain cache mv where c: "chunk_cache = Some cache" "media_values = Some mv"
    by (auto simp: libewf_write_io_handle_process_chunk_def split: option.splits)
  from assms have le: "chunk_data_size \<le> u64 (chunk_size mv)"
    by (auto simp: libewf_write_io_handle_process_chunk_def c split: if_splits)
  from assms obtain level where
    l: "process_chunk_compression_level m compression_level compress_empty_block chunk_data
          chunk_data_size = Inr level"
    by (auto simp: libewf_write_io_handle_process_chunk_def c split: if_splits sum.splits)
  let ?s0 = "\<lparr>ps_chunk_cache = cache, ps_memory = m, ps_chunk_data = chunk_data,
           ps_compressed_chunk_data = compressed_chunk_data,
           ps_compressed_chunk_data_size = compressed_chunk_data_size\<rparr>"
  let ?step = "if ewf_format = EWF_FORMAT_S01 \<or> level \<noteq> EWF_COMPRESSION_NONE
      then process_chunk_compress env ?s0 chunk_data_size level else Inr ?s0"
  from assms have run: "(case ?step of Inl e \<Rightarrow> Inl e
                          | Inr s \<Rightarrow> process_chunk_store env s mv ewf_format chunk_data_size)
                        = Inr r"
    by (auto simp: libewf_write_io_handle_process_chunk_def c l Let_def split: if_splits)
  then obtain s where s: "?step = Inr s"
    by (cases ?step) simp_all
  with run have "process_chunk_store env s mv ewf_format chunk_data_size = Inr r"
    by simp
  with c le l s that show thesis
    by blast
qed




lemma stored_form_after_compression:
  assumes run: "libewf_write_io_handle_process_chunk env m chunk_cache (Some mv)
             compression_level compress_empty_block ewf_format chunk_data chunk_data_size
             compressed_chunk_data compressed_chunk_data_size p1 p2 p3 = Inr r"
    and range: "0 \<le> chunk_size mv" "chunk_size mv < 2 ^ 32"
    and positive: "0 < compressed_size r"
  shows "(is_compressed r = 1 \<longleftrightarrow>
            ewf_format = EWF_FORMAT_S01 \<or> compressed_size r < chunk_size mv)
       \<and> (is_compressed r = 1 \<longrightarrow> output_data r = ps_compressed_chunk_data (final_state r))
       \<and> (is_compressed r \<noteq> 1 \<longrightarrow>
            is_compressed r = 0 \<and> output_data r = ps_chunk_data (final_state r))"
proof -
  from run obtain s where
    "process_chunk_store env s mv ewf_format chunk_data_size = Inr r"
    by (rule process_chunk_steps) auto
  from store_form [OF this] range positive show ?thesis
    by (auto simp: u64_def)
qed

lemma stored_form_without_compression:
  assumes run: "libewf_write_io_handle_process_chunk env m chunk_cache (Some mv)
             EWF_COMPRESSION_NONE 0 ewf_format chunk_data chunk_data_size
             compressed_chunk_data (Some size_on_entry) p1 p2 p3 = Inr r"
    and range: "0 \<le> chunk_size mv" "chunk_size mv < 2 ^ 32"
    and format: "ewf_format \<noteq> EWF_FORMAT_S01"
  shows "is_compressed r = 1 \<longleftrightarrow> 0 < size_on_entry \<and> size_on_entry < chunk_size mv"
    and "is_compressed r = 1 \<Longrightarrow>
           ps_memory (final_state r) = m \<and> output_data r = compressed_chunk_data"
  using assms
  by (auto simp: libewf_write_io_handle_process_chunk_def process_chunk_compression_level_def
      process_chunk_store_def Let_def u64_def
      split: option.splits sum.splits if_splits)

text \<open>
  C1. The choice of the stored form reads \<open>*compressed_chunk_data_size\<close> also when the
  chunk was not compressed, and the value is then the size of the buffer the caller
  passed in ("the compressed data size contains the maximum allowed buffer size on
  entry"). With compression level none, the format E01, a chunk of 64 bytes and a
  compressed data buffer of 63 bytes, no compressor is called and the memory is left as
  it was, and yet \<open>is_compressed\<close> is 1, the output is the compressed data buffer and the
  length returned is 63.
\<close>

theorem process_chunk_buffer_size_taken_for_compressed_size:
  "process_chunk_compression_level
     [(10, replicate 63 0), (20, replicate 68 0), (100, replicate 64 65)]
     EWF_COMPRESSION_NONE 0 100 64
   = Inr EWF_COMPRESSION_NONE
   \<and> EWF_FORMAT_E01 \<noteq> EWF_FORMAT_S01
   \<and> libewf_write_io_handle_process_chunk sample_environment
       [(10, replicate 63 0), (20, replicate 68 0), (100, replicate 64 65)]
       (Some sample_chunk_cache) (Some (sample_media_values 64)) EWF_COMPRESSION_NONE 0
       EWF_FORMAT_E01 100 64 10 (Some 63) True True True
     = Inr \<lparr>return_value = 63, is_compressed = 1, chunk_crc = 0, write_crc = 0,
             compressed_size = 63, output_data = 10,
             final_state = \<lparr>ps_chunk_cache = sample_chunk_cache,
               ps_memory = [(10, replicate 63 0), (20, replicate 68 0),
                            (100, replicate 64 65)],
               ps_chunk_data = 100, ps_compressed_chunk_data = 10,
               ps_compressed_chunk_data_size = Some 63\<rparr>\<rparr>"
  by code_simp








lemma test_empty_block_loop_result:
  assumes "0 \<le> iterator" "buffer_size \<le> int (length buffer)"
  shows "test_empty_block_loop buffer buffer_size iterator =
           Inr (if \<forall>j. iterator \<le> j \<and> j < buffer_size \<longrightarrow> buffer ! nat j = buffer ! 0
                then 1 else 0)"
  using assms
proof (induction buffer buffer_size iterator rule: test_empty_block_loop.induct)
  case (1 buffer buffer_size iterator)
  show ?case
  proof (cases "iterator < buffer_size")
    case False
    then show ?thesis
      by (subst test_empty_block_loop.simps) simp
  next
    case True
    show ?thesis
    proof (cases "buffer ! 0 = buffer ! nat iterator")
      case False
      with True have "\<not> (\<forall>j. iterator \<le> j \<and> j < buffer_size
                            \<longrightarrow> buffer ! nat j = buffer ! 0)"
        by (metis order_refl)
      with True False "1.prems" show ?thesis
        by (subst test_empty_block_loop.simps) simp
    next
      case same: True
      have "(\<forall>j. iterator \<le> j \<and> j < buffer_size \<longrightarrow> buffer ! nat j = buffer ! 0)
              = (\<forall>j. iterator + 1 \<le> j \<and> j < buffer_size \<longrightarrow> buffer ! nat j = buffer ! 0)"
      proof (intro iffI allI impI)
        fix j
        assume all: "\<forall>j. iterator + 1 \<le> j \<and> j < buffer_size \<longrightarrow> buffer ! nat j = buffer ! 0"
          and j: "iterator \<le> j \<and> j < buffer_size"
        show "buffer ! nat j = buffer ! 0"
        proof (cases "j = iterator")
          case True
          with same show ?thesis by simp
        next
          case False
          with j all show ?thesis by simp
        qed
      qed simp
      moreover have "test_empty_block_loop buffer buffer_size (iterator + 1) =
           Inr (if \<forall>j. iterator + 1 \<le> j \<and> j < buffer_size \<longrightarrow> buffer ! nat j = buffer ! 0
                then 1 else 0)"
        using True same "1.prems" by (intro "1.IH") simp_all
      ultimately show ?thesis
        using True same "1.prems"
        by (subst test_empty_block_loop.simps) simp
    qed
  qed
qed

lemma test_empty_block_result:
  assumes "buffer \<noteq> NULL" "map_of m buffer = Some bytes"
    and "buffer_size \<le> int (length bytes)" "buffer_size \<le> SSIZE_MAX"
  shows "libewf_write_io_handle_test_empty_block m buffer buffer_size =
           Inr (if \<forall>j. 1 \<le> j \<and> j < buffer_size \<longrightarrow> bytes ! nat j = bytes ! 0
                then 1 else 0)"
proof -
  have "test_empty_block_loop bytes buffer_size 1 =
          Inr (if \<forall>j. 1 \<le> j \<and> j < buffer_size \<longrightarrow> bytes ! nat j = bytes ! 0
               then 1 else 0)"
    using assms(3) by (intro test_empty_block_loop_result) simp_all
  then show ?thesis
    using assms(1,2,4)
    by (simp add: libewf_write_io_handle_test_empty_block_def
        del: test_empty_block_loop.simps)
qed

text \<open>
  C7 (as amended). With compression level none and \<open>compress_empty_block\<close> set, the chunk
  processor scans the chunk for bytes that all equal its first byte; for such an empty
  block the scan returns 1 and the call is the call with compression level default: the
  chunk is compressed, and it is stored compressed exactly when the format is EWF-S01 or
  the compressed size is not zero and strictly smaller than the chunk size.
\<close>

theorem empty_block_compression:
  assumes "chunk_data \<noteq> NULL" "map_of m chunk_data = Some bytes"
    and "chunk_data_size \<le> int (length bytes)" "chunk_data_size \<le> SSIZE_MAX"
    and "\<forall>j. 1 \<le> j \<and> j < chunk_data_size \<longrightarrow> bytes ! nat j = bytes ! 0"
  shows "libewf_write_io_handle_test_empty_block m chunk_data chunk_data_size = Inr 1
       \<and> libewf_write_io_handle_process_chunk env m chunk_cache media_values
           EWF_COMPRESSION_NONE 1 ewf_format chunk_data chunk_data_size
           compressed_chunk_data compressed_chunk_data_size p1 p2 p3
         = libewf_write_io_handle_process_chunk env m chunk_cache media_values
           EWF_COMPRESSION_DEFAULT 1 ewf_format chunk_data chunk_data_size
           compressed_chunk_data compressed_chunk_data_size p1 p2 p3
       \<and> (\<forall>mv r. media_values = Some mv \<and> 0 \<le> chunk_size mv \<and> chunk_size mv < 2 ^ 32
             \<and> libewf_write_io_handle_process_chunk env m chunk_cache media_values
                 EWF_COMPRESSION_NONE 1 ewf_format chunk_data chunk_data_size
                 compressed_chunk_data compressed_chunk_data_size p1 p2 p3 = Inr r
             \<longrightarrow> (is_compressed r = 1 \<longleftrightarrow>
                    ewf_format = EWF_FORMAT_S01
                    \<or> (0 < compressed_size r \<and> compressed_size r < chunk_size mv)))"
proof -
  have scan: "libewf_write_io_handle_test_empty_block m chunk_data chunk_data_size = Inr 1"
    using assms by (simp add: test_empty_block_result)
  have level: "process_chunk_compression_level m EWF_COMPRESSION_NONE 1 chunk_data
                 chunk_data_size
               = process_chunk_compression_level m EWF_COMPRESSION_DEFAULT 1 chunk_data
                 chunk_data_size"
    by (simp add: process_chunk_compression_level_def scan EWF_COMPRESSION_NONE_def
        EWF_COMPRESSION_DEFAULT_def)
  have same: "libewf_write_io_handle_process_chunk env m chunk_cache media_values
           EWF_COMPRESSION_NONE 1 ewf_format chunk_data chunk_data_size
           compressed_chunk_data compressed_chunk_data_size p1 p2 p3
         = libewf_write_io_handle_process_chunk env m chunk_cache media_values
           EWF_COMPRESSION_DEFAULT 1 ewf_format chunk_data chunk_data_size
           compressed_chunk_data compressed_chunk_data_size p1 p2 p3"
    unfolding libewf_write_io_handle_process_chunk_def level ..
  have form: "is_compressed r = 1 \<longleftrightarrow>
                ewf_format = EWF_FORMAT_S01
                \<or> (0 < compressed_size r \<and> compressed_size r < chunk_size mv)"
    if "media_values = Some mv" "0 \<le> chunk_size mv" "chunk_size mv < 2 ^ 32"
      and "libewf_write_io_handle_process_chunk env m chunk_cache media_values
             EWF_COMPRESSION_NONE 1 ewf_format chunk_data chunk_data_size
             compressed_chunk_data compressed_chunk_data_size p1 p2 p3 = Inr r" for mv r
  proof -
    from that(4) [unfolded that(1)] obtain s where
      "process_chunk_store env s mv ewf_format chunk_data_size = Inr r"
      by (rule process_chunk_steps) auto
    from store_form [OF this] that(2,3) show ?thesis
      by (auto simp: u64_def)
  qed
  from scan same form show ?thesis
    by blast
qed

theorem empty_block_compression_witness:
  "libewf_write_io_handle_test_empty_block (sample_memory 64) 20 64 = Inr 1
   \<and> libewf_write_io_handle_process_chunk sample_environment (sample_memory 64)
       (Some sample_chunk_cache) (Some (sample_media_values 64)) EWF_COMPRESSION_NONE 1
       EWF_FORMAT_E01 20 64 10 (Some 68) True True True
     = libewf_write_io_handle_process_chunk sample_environment (sample_memory 64)
       (Some sample_chunk_cache) (Some (sample_media_values 64)) EWF_COMPRESSION_DEFAULT 1
       EWF_FORMAT_E01 20 64 10 (Some 68) True True True"
proof -
  have buffer: "map_of (sample_memory 64) 20 = Some (replicate 68 0)"
    by (simp add: sample_memory_def)
  have uniform: "\<forall>j. 1 \<le> j \<and> j < (64 :: int)
                   \<longrightarrow> replicate 68 (0 :: int) ! nat j = replicate 68 0 ! 0"
    by auto
  show ?thesis
    using empty_block_compression [OF _ buffer _ _ uniform, of sample_environment
        "Some sample_chunk_cache" "Some (sample_media_values 64)" EWF_FORMAT_E01 10
        "Some 68" True True True]
    by (simp add: NULL_def SSIZE_MAX_def)
qed

text \<open>
  An empty block is not always stored compressed: the zlib stream of 8 zero bytes has 11
  bytes, so with a chunk size of 8 and the format E01 the block is stored raw.
\<close>

theorem empty_block_compression_counterexample:
  "libewf_write_io_handle_test_empty_block (sample_memory 8) 20 8 = Inr 1
   \<and> libewf_write_io_handle_process_chunk sample_environment (sample_memory 8)
       (Some sample_chunk_cache) (Some (sample_media_values 8)) EWF_COMPRESSION_NONE 1
       EWF_FORMAT_E01 20 8 10 (Some 12) True True True
     = Inr \<lparr>return_value = 12, is_compressed = 0, chunk_crc = 524289, write_crc = 0,
             compressed_size = 11, output_data = 20,
             final_state = \<lparr>ps_chunk_cache = sample_chunk_cache,
               ps_memory = [(10, [120, 156, 99, 96, 128, 0, 0, 0, 8, 0, 1, 0]),
                            (20, [0, 0, 0, 0, 0, 0, 0, 0, 1, 0, 8, 0]),
                            (100, replicate 8 65)],
               ps_chunk_data = 20, ps_compressed_chunk_data = 10,
               ps_compressed_chunk_data_size = Some 11\<rparr>\<rparr>"
  by code_simp

subsection \<open>The initialisation of the write io handle\<close>

text \<open>
  C10. In \<open>libewf_write_io_handle_initialize\<close>, called with a parameter that is not \<open>NULL\<close>
  and points to \<open>NULL\<close>, the test after \<open>memory_allocate\<close> reads the parameter and not
  the result of the allocation: no call returns the error \<open>MEMORY_ERROR_INSUFFICIENT\<close>,
  and when the allocation returns \<open>NULL\<close> the function goes on to call \<open>memory_set\<close> with
  the destination \<open>NULL\<close>.
\<close>

theorem initialize_allocation_not_tested:
  "fst (snd (libewf_write_io_handle_initialize allocated memory_set_fails (Some None)))
     \<noteq> Inl (Error MEMORY_ERROR_INSUFFICIENT)
   \<and> libewf_write_io_handle_initialize None memory_set_fails (Some None)
     = ([Memory_allocate, Memory_set True], Inl (Undefined NULL_DEREFERENCE), Some None)"
  by (simp add: libewf_write_io_handle_initialize_def Let_def)

subsection \<open>Writing a new chunk\<close>

lemma new_chunk_checked:
  assumes "arg_write_io_handle args" "arg_io_handle args" "arg_media_values args"
    "arg_offset_table args" "arg_segment_table args" "arg_header_values args"
    "st_segment_file_handle (segment_table_of w) \<noteq> None"
  shows "chunk_already_set (offset_table_of w) chunk = Inr True \<Longrightarrow>
         libewf_write_io_handle_write_new_chunk env args chunk chunk_buffer n chunk_data_size
           stored crc wcrc (w, t) = (Inl (Error RUNTIME_ERROR_VALUE_ALREADY_SET), (w, t))"
    and "chunk_already_set (offset_table_of w) chunk = Inr False \<Longrightarrow>
         wio_write_finalized (write_io_handle_of w) = 1 \<Longrightarrow>
         libewf_write_io_handle_write_new_chunk env args chunk chunk_buffer n chunk_data_size
           stored crc wcrc (w, t) = (Inr 0, (w, t))"
  using assms by (simp_all add: libewf_write_io_handle_write_new_chunk_def)

lemma new_chunk_consumed:
  assumes args: "arg_write_io_handle args" "arg_io_handle args" "arg_media_values args"
    "arg_offset_table args" "arg_segment_table args" "arg_header_values args"
    "st_segment_file_handle (segment_table_of w) \<noteq> None"
    and unset: "chunk_already_set (offset_table_of w) chunk = Inr False"
    and resize: "amount_of_chunks (media_values_of w)
                   \<le> ot_amount_of_chunk_offsets (offset_table_of w)
                 \<or> fst (env (Offset_table_resize (amount_of_chunks (media_values_of w))) w) = 1"
    and tested: "tested = world_after env
                   (if ot_amount_of_chunk_offsets (offset_table_of w)
                        < amount_of_chunks (media_values_of w)
                    then [Offset_table_resize (amount_of_chunks (media_values_of w))]
                    else []) w"
    and buffer: "chunk_buffer \<noteq> NULL" "0 < n" "n \<le> SSIZE_MAX"
    and consumed: "0 < media_size (media_values_of tested)"
      "media_size (media_values_of tested) \<le> wio_input_write_count (write_io_handle_of tested)"
      "wio_input_write_count (write_io_handle_of tested) < 2 ^ 63"
  shows "fst (libewf_write_io_handle_write_new_chunk env args chunk chunk_buffer n
                chunk_data_size stored crc wcrc (w, t)) = Inr 0"
proof (cases "wio_write_finalized (write_io_handle_of w) = 1")
  case True
  with args unset show ?thesis
    by (simp add: libewf_write_io_handle_write_new_chunk_def)
next
  case False
  have size: "s64 (media_size (media_values_of tested)) = media_size (media_values_of tested)"
    using consumed by (intro s64_id) simp_all
  show ?thesis
  proof (cases "amount_of_chunks (media_values_of w)
                  \<le> ot_amount_of_chunk_offsets (offset_table_of w)")
    case True
    with tested have "tested = w"
      by (simp add: world_after_def)
    with True args unset False buffer consumed size show ?thesis
      by (simp add: libewf_write_io_handle_write_new_chunk_def)
  next
    case needed: False
    obtain r out w' where
      call: "env (Offset_table_resize (amount_of_chunks (media_values_of w))) w = (r, out, w')"
      by (cases "env (Offset_table_resize (amount_of_chunks (media_values_of w))) w")
    with resize needed tested have "r = 1" "tested = w'"
      by (simp_all add: world_after_def)
    with args unset False buffer consumed size needed call show ?thesis
      by (simp add: libewf_write_io_handle_write_new_chunk_def perform_def)
  qed
qed

lemma new_chunk_resize_failed:
  assumes "arg_write_io_handle args" "arg_io_handle args" "arg_media_values args"
    "arg_offset_table args" "arg_segment_table args" "arg_header_values args"
    "st_segment_file_handle (segment_table_of w) \<noteq> None"
    and "chunk_already_set (offset_table_of w) chunk = Inr False"
    and "wio_write_finalized (write_io_handle_of w) \<noteq> 1"
    and "ot_amount_of_chunk_offsets (offset_table_of w) < amount_of_chunks (media_values_of w)"
    and "fst (env (Offset_table_resize (amount_of_chunks (media_values_of w))) w) \<noteq> 1"
  shows "libewf_write_io_handle_write_new_chunk env args chunk chunk_buffer n chunk_data_size
           stored crc wcrc (w, t)
         = (Inl (Error RUNTIME_ERROR_RESIZE_FAILED),
            (world_after env [Offset_table_resize (amount_of_chunks (media_values_of w))] w,
             t @ [Offset_table_resize (amount_of_chunks (media_values_of w))]))"
proof -
  obtain r out w' where
    call: "env (Offset_table_resize (amount_of_chunks (media_values_of w))) w = (r, out, w')"
    by (cases "env (Offset_table_resize (amount_of_chunks (media_values_of w))) w")
  with assms have "r \<noteq> 1"
    by simp
  with assms call show ?thesis
    by (simp add: libewf_write_io_handle_write_new_chunk_def perform_def world_after_def)
qed

text \<open>
  C8 (as amended). With valid arguments: when the offset table holds an entry with a
  non-\<open>NULL\<close> segment file handle for the chunk, the call fails with the error
  \<open>VALUE_ALREADY_SET\<close>, makes no call and leaves every counter as it was, whatever
  \<open>write_finalized\<close> and the counters are; when it holds none and \<open>write_finalized\<close> is 1,
  the call returns 0, makes no call and changes nothing; when it holds none, the chunk
  buffer and the chunk size are valid, the offset table has an entry for every chunk of
  the media or its resize succeeds, and then the media size is above zero and not above
  the input write count, the call returns 0; and when it holds none, \<open>write_finalized\<close> is
  not 1 and the resize the offset table needs fails, the call fails with the error
  \<open>RESIZE_FAILED\<close> after that one call.
\<close>

theorem write_new_chunk_rejections:
  assumes "arg_write_io_handle args" "arg_io_handle args" "arg_media_values args"
    "arg_offset_table args" "arg_segment_table args" "arg_header_values args"
    "st_segment_file_handle (segment_table_of w) \<noteq> None"
  shows "(chunk_already_set (offset_table_of w) chunk = Inr True \<longrightarrow>
            libewf_write_io_handle_write_new_chunk env args chunk chunk_buffer n
              chunk_data_size stored crc wcrc (w, t)
            = (Inl (Error RUNTIME_ERROR_VALUE_ALREADY_SET), (w, t)))
       \<and> (chunk_already_set (offset_table_of w) chunk = Inr False
            \<and> wio_write_finalized (write_io_handle_of w) = 1 \<longrightarrow>
            libewf_write_io_handle_write_new_chunk env args chunk chunk_buffer n
              chunk_data_size stored crc wcrc (w, t)
            = (Inr 0, (w, t)))
       \<and> (let tested = world_after env
                          (if ot_amount_of_chunk_offsets (offset_table_of w)
                               < amount_of_chunks (media_values_of w)
                           then [Offset_table_resize (amount_of_chunks (media_values_of w))]
                           else []) w
           in chunk_already_set (offset_table_of w) chunk = Inr False
              \<and> (amount_of_chunks (media_values_of w)
                    \<le> ot_amount_of_chunk_offsets (offset_table_of w)
                  \<or> fst (env (Offset_table_resize (amount_of_chunks (media_values_of w))) w)
                      = 1)
              \<and> chunk_buffer \<noteq> NULL \<and> 0 < n \<and> n \<le> SSIZE_MAX
              \<and> 0 < media_size (media_values_of tested)
              \<and> media_size (media_values_of tested)
                  \<le> wio_input_write_count (write_io_handle_of tested)
              \<and> wio_input_write_count (write_io_handle_of tested) < 2 ^ 63 \<longrightarrow>
              fst (libewf_write_io_handle_write_new_chunk env args chunk chunk_buffer n
                     chunk_data_size stored crc wcrc (w, t))
              = Inr 0)
       \<and> (chunk_already_set (offset_table_of w) chunk = Inr False
            \<and> wio_write_finalized (write_io_handle_of w) \<noteq> 1
            \<and> ot_amount_of_chunk_offsets (offset_table_of w)
                < amount_of_chunks (media_values_of w)
            \<and> fst (env (Offset_table_resize (amount_of_chunks (media_values_of w))) w) \<noteq> 1
            \<longrightarrow>
            libewf_write_io_handle_write_new_chunk env args chunk chunk_buffer n
              chunk_data_size stored crc wcrc (w, t)
            = (Inl (Error RUNTIME_ERROR_RESIZE_FAILED),
               (world_after env
                  [Offset_table_resize (amount_of_chunks (media_values_of w))] w,
                t @ [Offset_table_resize (amount_of_chunks (media_values_of w))])))"
  unfolding Let_def
proof (intro conjI impI)
  assume "chunk_already_set (offset_table_of w) chunk = Inr True"
  then show "libewf_write_io_handle_write_new_chunk env args chunk chunk_buffer n
               chunk_data_size stored crc wcrc (w, t)
             = (Inl (Error RUNTIME_ERROR_VALUE_ALREADY_SET), (w, t))"
    by (rule new_chunk_checked(1) [OF assms])
next
  assume "chunk_already_set (offset_table_of w) chunk = Inr False
          \<and> wio_write_finalized (write_io_handle_of w) = 1"
  then show "libewf_write_io_handle_write_new_chunk env args chunk chunk_buffer n
               chunk_data_size stored crc wcrc (w, t)
             = (Inr 0, (w, t))"
    using new_chunk_checked(2) [OF assms] by simp
next
  let ?tested = "world_after env
                   (if ot_amount_of_chunk_offsets (offset_table_of w)
                        < amount_of_chunks (media_values_of w)
                    then [Offset_table_resize (amount_of_chunks (media_values_of w))]
                    else []) w"
  assume "chunk_already_set (offset_table_of w) chunk = Inr False
          \<and> (amount_of_chunks (media_values_of w)
                \<le> ot_amount_of_chunk_offsets (offset_table_of w)
              \<or> fst (env (Offset_table_resize (amount_of_chunks (media_values_of w))) w) = 1)
          \<and> chunk_buffer \<noteq> NULL \<and> 0 < n \<and> n \<le> SSIZE_MAX
          \<and> 0 < media_size (media_values_of ?tested)
          \<and> media_size (media_values_of ?tested)
              \<le> wio_input_write_count (write_io_handle_of ?tested)
          \<and> wio_input_write_count (write_io_handle_of ?tested) < 2 ^ 63"
  then show "fst (libewf_write_io_handle_write_new_chunk env args chunk chunk_buffer n
                    chunk_data_size stored crc wcrc (w, t))
             = Inr 0"
    by (elim conjE) (rule new_chunk_consumed [OF assms _ _ refl])
next
  assume "chunk_already_set (offset_table_of w) chunk = Inr False
          \<and> wio_write_finalized (write_io_handle_of w) \<noteq> 1
          \<and> ot_amount_of_chunk_offsets (offset_table_of w)
              < amount_of_chunks (media_values_of w)
          \<and> fst (env (Offset_table_resize (amount_of_chunks (media_values_of w))) w) \<noteq> 1"
  then show "libewf_write_io_handle_write_new_chunk env args chunk chunk_buffer n
               chunk_data_size stored crc wcrc (w, t)
             = (Inl (Error RUNTIME_ERROR_RESIZE_FAILED),
                (world_after env
                   [Offset_table_resize (amount_of_chunks (media_values_of w))] w,
                 t @ [Offset_table_resize (amount_of_chunks (media_values_of w))]))"
    by (elim conjE) (rule new_chunk_resize_failed [OF assms])
qed

theorem write_new_chunk_rejections_witness:
  "libewf_write_io_handle_write_new_chunk sample_io_environment sample_arguments 0 30 64 64
     0 7 1 (sample_world 900 0 0, [])
   = (Inl (Error RUNTIME_ERROR_VALUE_ALREADY_SET), (sample_world 900 0 0, []))
   \<and> libewf_write_io_handle_write_new_chunk sample_io_environment sample_arguments 1 30 64 64
       0 7 1 (sample_world 900 1 0, [])
     = (Inr 0, (sample_world 900 1 0, []))
   \<and> fst (libewf_write_io_handle_write_new_chunk sample_io_environment sample_arguments 1 30
            64 64 0 7 1 (sample_world 900 0 128, []))
     = Inr 0
   \<and> libewf_write_io_handle_write_new_chunk (failing_io_environment (Offset_table_resize 2))
       sample_arguments 1 30 64 64 0 7 1 (sample_world 900 0 0, [])
     = (Inl (Error RUNTIME_ERROR_RESIZE_FAILED), (sample_world 900 0 0, [Offset_table_resize 2]))"
proof -
  have arguments: "arg_write_io_handle sample_arguments" "arg_io_handle sample_arguments"
    "arg_media_values sample_arguments" "arg_offset_table sample_arguments"
    "arg_segment_table sample_arguments" "arg_header_values sample_arguments"
    by (simp_all add: sample_arguments_def)
  have table: "st_segment_file_handle (segment_table_of (sample_world 900 finalized count))
                 \<noteq> None" for finalized count
    by (simp add: sample_world_def)
  have first: "chunk_already_set (offset_table_of (sample_world 900 0 0)) 0 = Inr True"
    by code_simp
  have second: "chunk_already_set (offset_table_of (sample_world 900 1 0)) 1 = Inr False"
    "wio_write_finalized (write_io_handle_of (sample_world 900 1 0)) = 1"
    by code_simp+
  let ?tested = "world_after sample_io_environment
                   (if ot_amount_of_chunk_offsets (offset_table_of (sample_world 900 0 128))
                        < amount_of_chunks (media_values_of (sample_world 900 0 128))
                    then [Offset_table_resize
                            (amount_of_chunks (media_values_of (sample_world 900 0 128)))]
                    else []) (sample_world 900 0 128)"
  have third: "chunk_already_set (offset_table_of (sample_world 900 0 128)) 1 = Inr False"
    "fst (sample_io_environment
            (Offset_table_resize (amount_of_chunks (media_values_of (sample_world 900 0 128))))
            (sample_world 900 0 128)) = 1"
    "(30 :: pointer) \<noteq> NULL" "(0 :: int) < 64" "64 \<le> SSIZE_MAX"
    "0 < media_size (media_values_of ?tested)"
    "media_size (media_values_of ?tested) \<le> wio_input_write_count (write_io_handle_of ?tested)"
    "wio_input_write_count (write_io_handle_of ?tested) < 2 ^ 63"
    by code_simp+
  have fourth: "chunk_already_set (offset_table_of (sample_world 900 0 0)) 1 = Inr False"
    "wio_write_finalized (write_io_handle_of (sample_world 900 0 0)) \<noteq> 1"
    "ot_amount_of_chunk_offsets (offset_table_of (sample_world 900 0 0))
       < amount_of_chunks (media_values_of (sample_world 900 0 0))"
    "fst (failing_io_environment (Offset_table_resize 2)
            (Offset_table_resize (amount_of_chunks (media_values_of (sample_world 900 0 0))))
            (sample_world 900 0 0)) \<noteq> 1"
    by code_simp+
  have refused: "world_after (failing_io_environment (Offset_table_resize 2))
            [Offset_table_resize 2] (sample_world 900 0 0) = sample_world 900 0 0"
    "amount_of_chunks (media_values_of (sample_world 900 0 0)) = 2"
    by (simp_all add: sample_world_def world_after_def failing_io_environment_def)
  have d: "libewf_write_io_handle_write_new_chunk
             (failing_io_environment (Offset_table_resize 2)) sample_arguments 1
             30 64 64 0 7 1 (sample_world 900 0 0, [])
           = (Inl (Error RUNTIME_ERROR_RESIZE_FAILED),
              (sample_world 900 0 0, [Offset_table_resize 2]))"
    using write_new_chunk_rejections [OF arguments table, of 0 0 1
        "failing_io_environment (Offset_table_resize 2)" 30 64 64 0 7 1 "[]"] fourth
    by (simp add: refused)
  have a: "libewf_write_io_handle_write_new_chunk sample_io_environment sample_arguments 0 30
          64 64 0 7 1 (sample_world 900 0 0, [])
        = (Inl (Error RUNTIME_ERROR_VALUE_ALREADY_SET), (sample_world 900 0 0, []))"
    using write_new_chunk_rejections [OF arguments table, of 0 0 0 sample_io_environment
        30 64 64 0 7 1 "[]"] first
    by simp
  have b: "libewf_write_io_handle_write_new_chunk sample_io_environment sample_arguments 1 30
          64 64 0 7 1 (sample_world 900 1 0, [])
        = (Inr 0, (sample_world 900 1 0, []))"
    using write_new_chunk_rejections [OF arguments table, of 1 0 1 sample_io_environment
        30 64 64 0 7 1 "[]"] second
    by simp
  have c: "fst (libewf_write_io_handle_write_new_chunk sample_io_environment sample_arguments
               1 30 64 64 0 7 1 (sample_world 900 0 128, []))
        = Inr 0"
    using write_new_chunk_rejections [OF arguments table, of 0 128 1 sample_io_environment
        30 64 64 0 7 1 "[]"] third
    by (simp add: Let_def)
  from a b c d show ?thesis
    by (intro conjI)
qed

text \<open>
  The test for a chunk that is already set comes first: a call for such a chunk fails also
  when the write is finalized and all the input is written. The resize of the offset
  table comes before the test of the input written: where it fails, a call made after all
  the input is written fails too.
\<close>

theorem write_new_chunk_counterexample:
  "wio_write_finalized (write_io_handle_of (sample_world 900 1 128)) = 1
   \<and> 0 < media_size (media_values_of (sample_world 900 1 128))
   \<and> media_size (media_values_of (sample_world 900 1 128))
       \<le> wio_input_write_count (write_io_handle_of (sample_world 900 1 128))
   \<and> libewf_write_io_handle_write_new_chunk sample_io_environment sample_arguments 0 30 64 64
       0 7 1 (sample_world 900 1 128, [])
     = (Inl (Error RUNTIME_ERROR_VALUE_ALREADY_SET), (sample_world 900 1 128, []))
   \<and> 0 < media_size (media_values_of (sample_world 900 0 128))
   \<and> media_size (media_values_of (sample_world 900 0 128))
       \<le> wio_input_write_count (write_io_handle_of (sample_world 900 0 128))
   \<and> libewf_write_io_handle_write_new_chunk (failing_io_environment (Offset_table_resize 2))
       sample_arguments 1 30 64 64 0 7 1 (sample_world 900 0 128, [])
     = (Inl (Error RUNTIME_ERROR_RESIZE_FAILED),
        (sample_world 900 0 128, [Offset_table_resize 2]))"
  by code_simp

subsection \<open>Writing an existing chunk\<close>

lemma perform_state:
  assumes "perform env c s = (r, out, s')"
  shows "s' = (snd (snd (env c (fst s))), snd s @ [c])"
  using assms by (auto simp: perform_def split: prod.splits)

lemma world_after_simps:
  "world_after env [] w = w"
  "world_after env (c # cs) w = world_after env cs (snd (snd (env c w)))"
  "world_after env (cs @ ds) w = world_after env ds (world_after env cs w)"
  by (simp_all add: world_after_def)

lemma new_delta_segment_calls:
  assumes "write_existing_chunk_new_delta_segment env segment_number written (w, t)
             = (Inr (new_handle, written'), s')"
  shows "segment_file_handle_of
           (delta_segment_table_of
              (world_after env [Segment_table_create_segment_file True
                                  (u16 (segment_number + 1)) LIBEWF_SEGMENT_FILE_TYPE_DWF] w))
           (u16 (segment_number + 1)) = Inr new_handle"
    and "s' = (world_after env
                 [Segment_table_create_segment_file True (u16 (segment_number + 1))
                    LIBEWF_SEGMENT_FILE_TYPE_DWF,
                  Segment_file_write_start new_handle (u16 (segment_number + 1))
                    LIBEWF_SEGMENT_FILE_TYPE_DWF] w,
               t @ [Segment_table_create_segment_file True (u16 (segment_number + 1))
                      LIBEWF_SEGMENT_FILE_TYPE_DWF,
                    Segment_file_write_start new_handle (u16 (segment_number + 1))
                      LIBEWF_SEGMENT_FILE_TYPE_DWF])"
  using assms
  unfolding write_existing_chunk_new_delta_segment_def Let_def
  by (auto simp: world_after_simps split: prod.splits sum.splits if_splits
      dest!: perform_state)

lemma delta_chunk_calls:
  assumes "write_existing_chunk_delta_chunk env h chunk chunk_buffer n crc wcrc 0 written
             (w, t) = (Inr written', s')"
  shows "s' = (world_after env
                 [Segment_file_write_delta_chunk h chunk chunk_buffer n crc wcrc 0,
                  Segment_file_write_last_section h 1] w,
               t @ [Segment_file_write_delta_chunk h chunk chunk_buffer n crc wcrc 0,
                    Segment_file_write_last_section h 1])"
  using assms
  unfolding write_existing_chunk_delta_chunk_def Let_def
  by (auto simp: world_after_simps split: prod.splits sum.splits if_splits
      dest!: perform_state)

lemma last_delta_segment_calls:
  assumes run: "write_existing_chunk_last_delta_segment env segment_number n (w, t)
                  = (Inr (result, h, written), s')"
    and delta: "segment_file_handle_of (delta_segment_table_of w) segment_number
                  = Inr delta_handle"
      "handle_at w delta_handle = Inr handle"
      "sfh_section_list handle = Some section_list"
      "section_list \<noteq> []" "last section_list = terminator"
    and positioned: "positioned
                       = Pool_get_offset delta_handle
                         # (if fst (snd (env (Pool_get_offset delta_handle) w))
                               = le_start_offset terminator
                            then []
                            else [Pool_seek_offset delta_handle (le_start_offset terminator)])"
    and limit: "limit = wio_segment_file_size (write_io_handle_of
                          (world_after env positioned w))"
    and range: "- (2 ^ 63) \<le> le_start_offset terminator" "0 \<le> n"
      "le_start_offset terminator + n + 80 < 2 ^ 63" "0 \<le> limit" "limit < 2 ^ 63"
    and closing: "closing = (if le_start_offset terminator + n + 4 + 76 > limit
                             then [Segment_file_write_last_section delta_handle 0]
                             else [List_remove_element delta_handle (le_element terminator),
                                   Section_list_values_free (le_value terminator),
                                   Memory_free_list_element (le_element terminator)])"
  shows "h = delta_handle"
    and "result = (if le_start_offset terminator + n + 4 + 76 > limit then 0 else 1)"
    and "s' = (world_after env (positioned @ closing) w, t @ positioned @ closing)"
proof -
  define L where "L = le_start_offset terminator"
  have sum: "s64 (u64 (u64 (u64 (u64 L + n) + sizeof_ewf_crc_t) + sizeof_ewf_section_t))
               = L + n + 80"
  proof -
    have "u64 (u64 (u64 (u64 L + n) + 4) + 76) = u64 (L + n + 80)"
      by (simp add: u64_def mod_simps algebra_simps)
    moreover have "s64 (u64 (L + n + 80)) = L + n + 80"
      using range(1-3) unfolding s64_u64 L_def by (intro s64_id) simp_all
    ultimately show ?thesis
      by (simp add: sizeof_ewf_crc_t_def sizeof_ewf_section_t_def)
  qed
  have cast: "s64 limit = limit"
    using range(4,5) by (intro s64_id) simp_all
  obtain got offset s1 where
    get: "perform env (Pool_get_offset delta_handle) (w, t) = (got, offset, s1)"
    by (metis prod_cases3)
  have offset: "offset = fst (snd (env (Pool_get_offset delta_handle) w))"
    using get by (auto simp: perform_def split: prod.splits)
  have s1: "s1 = (world_after env [Pool_get_offset delta_handle] w,
                  t @ [Pool_get_offset delta_handle])"
    using perform_state [OF get] by (simp add: world_after_simps)
  obtain sought out s2 where
    seek: "(if offset \<noteq> L then perform env (Pool_seek_offset delta_handle L) s1
            else (0, 0, s1)) = (sought, out, s2)"
    by (metis prod_cases3)
  have form: "positioned = Pool_get_offset delta_handle
                           # (if offset = L then [] else [Pool_seek_offset delta_handle L])"
    by (simp add: positioned offset L_def)
  have s2: "s2 = (world_after env positioned w, t @ positioned)"
  proof (cases "offset = L")
    case True
    with seek s1 show ?thesis
      by (simp add: form)
  next
    case False
    with seek have "perform env (Pool_seek_offset delta_handle L) s1 = (sought, out, s2)"
      by simp
    from perform_state [OF this] False show ?thesis
      by (simp add: form s1 world_after_simps)
  qed
  have w2: "wio_segment_file_size (write_io_handle_of (fst s2)) = limit"
    by (simp add: s2 limit)
  have not_null: "delta_handle \<noteq> NULL"
    using delta(2) by (auto simp: handle_at_def split: if_splits)
  have present: "le_value terminator \<noteq> NULL"
    using run delta not_null
    unfolding write_existing_chunk_last_delta_segment_def
    by (auto simp: Let_def split: if_splits)
  from run delta not_null present
  have run1: "(if got \<noteq> 1 then (Inl (Error RUNTIME_ERROR_GET_FAILED), s1)
               else if offset \<noteq> L \<and> sought = - 1
               then (Inl (Error IO_ERROR_SEEK_FAILED), s2)
               else if L + n + 80 > limit
               then case perform env (Segment_file_write_last_section delta_handle 0) s2 of
                 (write_count, _, s) \<Rightarrow>
                   if write_count = - 1 then (Inl (Error IO_ERROR_WRITE_FAILED), s)
                   else (Inr (0, delta_handle, s64 write_count), s)
               else case perform env
                           (List_remove_element delta_handle (le_element terminator)) s2 of
                 (removed, _, s) \<Rightarrow>
                   if removed \<noteq> 1 then (Inl (Error RUNTIME_ERROR_REMOVE_FAILED), s)
                   else case perform env (Section_list_values_free (le_value terminator)) s of
                     (freed, _, s) \<Rightarrow>
                       case perform env (Memory_free_list_element (le_element terminator)) s of
                         (_, _, s) \<Rightarrow>
                           if freed \<noteq> 1 then (Inl (Error RUNTIME_ERROR_FINALIZE_FAILED), s)
                           else (Inr (1, delta_handle, 0), s))
              = (Inr (result, h, written), s')"
    unfolding write_existing_chunk_last_delta_segment_def
    by (simp add: Let_def L_def [symmetric] get seek sum cast w2 cong del: if_weak_cong)
  have all: "h = delta_handle
        \<and> result = (if L + n + 80 > limit then 0 else 1)
        \<and> s' = (world_after env
                   (positioned
                    @ (if L + n + 80 > limit
                       then [Segment_file_write_last_section delta_handle 0]
                       else [List_remove_element delta_handle (le_element terminator),
                             Section_list_values_free (le_value terminator),
                             Memory_free_list_element (le_element terminator)])) w,
                 t @ positioned
                   @ (if L + n + 80 > limit
                      then [Segment_file_write_last_section delta_handle 0]
                      else [List_remove_element delta_handle (le_element terminator),
                            Section_list_values_free (le_value terminator),
                            Memory_free_list_element (le_element terminator)]))"
    using run1
    by (auto simp: s2 world_after_simps split: if_splits prod.splits dest!: perform_state)
  from all show "h = delta_handle"
    by simp
  from all show "result = (if le_start_offset terminator + n + 4 + 76 > limit then 0 else 1)"
    by (simp add: L_def)
  from all show "s' = (world_after env (positioned @ closing) w, t @ positioned @ closing)"
    by (simp add: L_def closing)
qed

text \<open>
  C9 (as amended). On the append path of \<open>libewf_write_io_handle_write_existing_chunk\<close>
  (the segment file that holds the chunk is not a delta segment file, and there is a last
  delta segment file whose section list ends with a terminator), a call that succeeds
  first asks for the current offset of the delta segment file and, unless that is the
  start offset of the terminator, seeks to it. Where the start offset of the terminator
  plus the chunk size plus the size of the CRC plus the size of a section start is at
  most \<open>2^63 - 1\<close> and so is \<open>segment_file_size\<close>, it then makes these calls and no other:
  when the sum exceeds \<open>segment_file_size\<close>, it writes the last section with
  \<open>last_segment_file = 0\<close> (a next section) into the delta segment file, creates a delta
  segment file with the next number, and writes the start, the delta chunk and a done
  section into the segment file the table holds at that number after the creation;
  otherwise it removes the terminator from the section list of the delta segment file,
  frees its values and the element, and writes the delta chunk and a done section into
  the existing delta segment file. The world the call leaves is the one these calls
  leave.
\<close>

theorem delta_append_path:
  assumes run: "libewf_write_io_handle_write_existing_chunk header_size env args chunk
                  chunk_buffer n chunk_data_size stored crc wcrc (w, t)
                  = (Inr written, s')"
    and owner: "ot_chunk_offset (offset_table_of w) = Some chunk_offsets"
      "element chunk_offsets chunk = Inr offset"
      "handle_at w (co_segment_file_handle offset) = Inr owner"
      "sfh_file_type owner \<noteq> LIBEWF_SEGMENT_FILE_TYPE_DWF"
    and delta: "0 < st_amount (delta_segment_table_of w)"
      "st_amount (delta_segment_table_of w) < 2 ^ 16"
      "segment_number = st_amount (delta_segment_table_of w) - 1"
      "segment_number \<noteq> 0"
      "segment_file_handle_of (delta_segment_table_of w) segment_number = Inr delta_handle"
      "handle_at w delta_handle = Inr handle"
      "sfh_section_list handle = Some section_list"
      "section_list \<noteq> []" "last section_list = terminator"
    and positioned: "positioned
                       = Pool_get_offset delta_handle
                         # (if fst (snd (env (Pool_get_offset delta_handle) w))
                               = le_start_offset terminator
                            then []
                            else [Pool_seek_offset delta_handle (le_start_offset terminator)])"
    and limit: "limit = wio_segment_file_size (write_io_handle_of
                          (world_after env positioned w))"
    and range: "- (2 ^ 63) \<le> le_start_offset terminator" "0 \<le> n"
      "le_start_offset terminator + n + 80 < 2 ^ 63" "0 \<le> limit" "limit < 2 ^ 63"
  shows "if le_start_offset terminator + n + 4 + 76 > limit
         then \<exists>new_handle.
                segment_file_handle_of
                  (delta_segment_table_of
                     (world_after env
                        (positioned
                         @ [Segment_file_write_last_section delta_handle 0,
                            Segment_table_create_segment_file True (segment_number + 1)
                              LIBEWF_SEGMENT_FILE_TYPE_DWF]) w))
                  (segment_number + 1) = Inr new_handle
                \<and> snd s' = t @ positioned
                    @ [Segment_file_write_last_section delta_handle 0,
                       Segment_table_create_segment_file True (segment_number + 1)
                         LIBEWF_SEGMENT_FILE_TYPE_DWF,
                       Segment_file_write_start new_handle (segment_number + 1)
                         LIBEWF_SEGMENT_FILE_TYPE_DWF,
                       Segment_file_write_delta_chunk new_handle chunk chunk_buffer n
                         crc wcrc 0,
                       Segment_file_write_last_section new_handle 1]
                \<and> fst s' = world_after env (drop (length t) (snd s')) w
         else snd s' = t @ positioned
                  @ [List_remove_element delta_handle (le_element terminator),
                     Section_list_values_free (le_value terminator),
                     Memory_free_list_element (le_element terminator),
                     Segment_file_write_delta_chunk delta_handle chunk chunk_buffer n
                       crc wcrc 0,
                     Segment_file_write_last_section delta_handle 1]
              \<and> fst s' = world_after env (drop (length t) (snd s')) w"
proof -
  have number: "u16 (st_amount (delta_segment_table_of w) - 1) = segment_number"
    "u16 (segment_number + 1) = segment_number + 1"
    using delta(1-4) by (simp_all add: u16_def)
  have owner_handle: "co_segment_file_handle offset \<noteq> NULL"
    using owner(3) by (auto simp: handle_at_def split: if_splits)
  obtain first s1 where
    one: "write_existing_chunk_last_delta_segment env segment_number n (w, t) = (first, s1)"
    by (cases "write_existing_chunk_last_delta_segment env segment_number n (w, t)")
  from run owner owner_handle delta(4)
  have composed: "(case (first, s1) of
                     (Inl e, s) \<Rightarrow> (Inl e, s)
                   | (Inr (result, segment_file_handle, total_write_count), s) \<Rightarrow>
                      (case (if result = 0
                             then write_existing_chunk_new_delta_segment env
                                    segment_number total_write_count s
                             else (Inr (segment_file_handle, total_write_count), s)) of
                         (Inl e, s) \<Rightarrow> (Inl e, s)
                       | (Inr (segment_file_handle, total_write_count), s) \<Rightarrow>
                           write_existing_chunk_delta_chunk env segment_file_handle
                             chunk chunk_buffer n crc wcrc 0 total_write_count s))
                  = (Inr written, s')"
    unfolding libewf_write_io_handle_write_existing_chunk_def
    by (simp add: Let_def number one split: if_splits)
  then obtain result h written1 where first: "first = Inr (result, h, written1)"
    by (cases first) auto
  define exceeds where "exceeds \<longleftrightarrow> le_start_offset terminator + n + 4 + 76 > limit"
  define closing where
    "closing = (if le_start_offset terminator + n + 4 + 76 > limit
                then [Segment_file_write_last_section delta_handle 0]
                else [List_remove_element delta_handle (le_element terminator),
                      Section_list_values_free (le_value terminator),
                      Memory_free_list_element (le_element terminator)])"
  note last_segment = last_delta_segment_calls
    [OF one [unfolded first] delta(5-9) positioned limit range closing_def]
  have h: "h = delta_handle"
    and result: "result = (if exceeds then 0 else 1)"
    and s1: "s1 = (world_after env (positioned @ closing) w, t @ positioned @ closing)"
    using last_segment by (simp_all add: exceeds_def)
  show ?thesis
  proof (cases exceeds)
    case True
    with result have result: "result = 0"
      by simp
    obtain second s2 where
      two: "write_existing_chunk_new_delta_segment env segment_number written1
              (world_after env (positioned @ closing) w, t @ positioned @ closing)
              = (second, s2)"
      by (cases "write_existing_chunk_new_delta_segment env segment_number written1
                   (world_after env (positioned @ closing) w, t @ positioned @ closing)")
    from composed first result two s1
    obtain new_handle written2 where second: "second = Inr (new_handle, written2)"
      by (cases second) auto
    note created = new_delta_segment_calls [OF two [unfolded second], unfolded number]
    from composed first result two second s1
    have three: "write_existing_chunk_delta_chunk env new_handle chunk chunk_buffer n crc
                   wcrc 0 written2 s2 = (Inr written, s')"
      by simp
    from delta_chunk_calls [OF three [unfolded created(2)]]
    have s': "s' = (world_after env
                      (positioned @ closing
                       @ [Segment_table_create_segment_file True (segment_number + 1)
                            LIBEWF_SEGMENT_FILE_TYPE_DWF,
                          Segment_file_write_start new_handle (segment_number + 1)
                            LIBEWF_SEGMENT_FILE_TYPE_DWF,
                          Segment_file_write_delta_chunk new_handle chunk chunk_buffer n
                            crc wcrc 0,
                          Segment_file_write_last_section new_handle 1]) w,
                    t @ positioned @ closing
                      @ [Segment_table_create_segment_file True (segment_number + 1)
                           LIBEWF_SEGMENT_FILE_TYPE_DWF,
                         Segment_file_write_start new_handle (segment_number + 1)
                           LIBEWF_SEGMENT_FILE_TYPE_DWF,
                         Segment_file_write_delta_chunk new_handle chunk chunk_buffer n
                           crc wcrc 0,
                         Segment_file_write_last_section new_handle 1])"
      by (simp add: world_after_simps)
    have closed: "closing = [Segment_file_write_last_section delta_handle 0]"
      using True by (simp add: closing_def exceeds_def)
    have "segment_file_handle_of
            (delta_segment_table_of
               (world_after env
                  (positioned
                   @ [Segment_file_write_last_section delta_handle 0,
                      Segment_table_create_segment_file True (segment_number + 1)
                        LIBEWF_SEGMENT_FILE_TYPE_DWF]) w))
            (segment_number + 1) = Inr new_handle"
      using created(1) by (simp add: closed world_after_simps)
    with s' have "\<exists>new_handle.
        segment_file_handle_of
          (delta_segment_table_of
             (world_after env
                (positioned
                 @ [Segment_file_write_last_section delta_handle 0,
                    Segment_table_create_segment_file True (segment_number + 1)
                      LIBEWF_SEGMENT_FILE_TYPE_DWF]) w))
          (segment_number + 1) = Inr new_handle
        \<and> snd s' = t @ positioned
            @ [Segment_file_write_last_section delta_handle 0,
               Segment_table_create_segment_file True (segment_number + 1)
                 LIBEWF_SEGMENT_FILE_TYPE_DWF,
               Segment_file_write_start new_handle (segment_number + 1)
                 LIBEWF_SEGMENT_FILE_TYPE_DWF,
               Segment_file_write_delta_chunk new_handle chunk chunk_buffer n crc wcrc 0,
               Segment_file_write_last_section new_handle 1]
        \<and> fst s' = world_after env (drop (length t) (snd s')) w"
      by (intro exI [of _ new_handle]) (simp add: closed)
    with True show ?thesis
      unfolding exceeds_def by simp
  next
    case False
    with result have result: "result = 1"
      by simp
    have closed: "closing = [List_remove_element delta_handle (le_element terminator),
                             Section_list_values_free (le_value terminator),
                             Memory_free_list_element (le_element terminator)]"
      using False by (simp add: closing_def exceeds_def)
    from composed first result h s1
    have three: "write_existing_chunk_delta_chunk env delta_handle chunk chunk_buffer n crc
                   wcrc 0 written1
                   (world_after env (positioned @ closing) w, t @ positioned @ closing)
                 = (Inr written, s')"
      by simp
    from delta_chunk_calls [OF three]
    have "s' = (world_after env
                  (positioned @ closing
                   @ [Segment_file_write_delta_chunk delta_handle chunk chunk_buffer n
                        crc wcrc 0,
                      Segment_file_write_last_section delta_handle 1]) w,
                t @ positioned @ closing
                  @ [Segment_file_write_delta_chunk delta_handle chunk chunk_buffer n
                       crc wcrc 0,
                     Segment_file_write_last_section delta_handle 1])"
      by (simp add: world_after_simps)
    with False show ?thesis
      unfolding exceeds_def by (simp add: closed)
  qed
qed

theorem delta_append_path_witness:
  "snd (snd (libewf_write_io_handle_write_existing_chunk 16 sample_io_environment
               sample_arguments 0 30 64 64 0 7 1 (sample_world 900 0 0, [])))
   = [Pool_get_offset 300, Pool_seek_offset 300 900,
      Segment_file_write_last_section 300 0,
      Segment_table_create_segment_file True 2 LIBEWF_SEGMENT_FILE_TYPE_DWF,
      Segment_file_write_start 1002 2 LIBEWF_SEGMENT_FILE_TYPE_DWF,
      Segment_file_write_delta_chunk 1002 0 30 64 7 1 0,
      Segment_file_write_last_section 1002 1]
   \<and> snd (snd (libewf_write_io_handle_write_existing_chunk 16 sample_io_environment
                  sample_arguments 0 30 64 64 0 7 1 (sample_world 100 0 0, [])))
     = [Pool_get_offset 300, List_remove_element 300 320, Section_list_values_free 321,
        Memory_free_list_element 320, Segment_file_write_delta_chunk 300 0 30 64 7 1 0,
        Segment_file_write_last_section 300 1]"
proof -
  let ?owner = "\<lparr>sfh_file_type = LIBEWF_SEGMENT_FILE_TYPE_EWF, sfh_write_open = 1,
                  sfh_amount_of_chunks = 0,
                  sfh_section_list =
                    Some [\<lparr>le_element = 210, le_value = 211, le_start_offset = 13\<rparr>]\<rparr>"
  let ?offset = "\<lparr>co_segment_file_handle = 200, co_file_offset = 13\<rparr>"
  let ?first = "\<lparr>le_element = 310, le_value = 311, le_start_offset = 13\<rparr>"
  have world: "ot_chunk_offset (offset_table_of (sample_world start 0 0)) = Some [?offset]"
    "element [?offset] 0 = Inr ?offset"
    "handle_at (sample_world start 0 0) (co_segment_file_handle ?offset) = Inr ?owner"
    "sfh_file_type ?owner \<noteq> LIBEWF_SEGMENT_FILE_TYPE_DWF"
    "0 < st_amount (delta_segment_table_of (sample_world start 0 0))"
    "st_amount (delta_segment_table_of (sample_world start 0 0)) < 2 ^ 16"
    "1 = st_amount (delta_segment_table_of (sample_world start 0 0)) - 1"
    "(1 :: int) \<noteq> 0"
    "segment_file_handle_of (delta_segment_table_of (sample_world start 0 0)) 1 = Inr 300"
    "handle_at (sample_world start 0 0) 300
       = Inr \<lparr>sfh_file_type = LIBEWF_SEGMENT_FILE_TYPE_DWF, sfh_write_open = 1,
              sfh_amount_of_chunks = 0,
              sfh_section_list =
                Some [?first,
                      \<lparr>le_element = 320, le_value = 321, le_start_offset = start\<rparr>]\<rparr>"
    "sfh_section_list \<lparr>sfh_file_type = LIBEWF_SEGMENT_FILE_TYPE_DWF, sfh_write_open = 1,
              sfh_amount_of_chunks = 0,
              sfh_section_list =
                Some [?first,
                      \<lparr>le_element = 320, le_value = 321, le_start_offset = start\<rparr>]\<rparr>
       = Some [?first, \<lparr>le_element = 320, le_value = 321, le_start_offset = start\<rparr>]"
    "[?first, \<lparr>le_element = 320, le_value = 321, le_start_offset = start\<rparr>] \<noteq> []"
    "last [?first, \<lparr>le_element = 320, le_value = 321, le_start_offset = start\<rparr>]
       = \<lparr>le_element = 320, le_value = 321, le_start_offset = start\<rparr>"
    for start
    by (simp_all add: sample_world_def element_def handle_at_def segment_file_handle_of_def
        NULL_def LIBEWF_SEGMENT_FILE_TYPE_EWF_def LIBEWF_SEGMENT_FILE_TYPE_DWF_def)
  have "\<not> isl (fst (libewf_write_io_handle_write_existing_chunk 16 sample_io_environment
                      sample_arguments 0 30 64 64 0 7 1 (sample_world 900 0 0, [])))"
    by code_simp
  then obtain written s' where
    far: "libewf_write_io_handle_write_existing_chunk 16 sample_io_environment
            sample_arguments 0 30 64 64 0 7 1 (sample_world 900 0 0, []) = (Inr written, s')"
    by (cases "libewf_write_io_handle_write_existing_chunk 16 sample_io_environment
                 sample_arguments 0 30 64 64 0 7 1 (sample_world 900 0 0, [])";
        cases "fst (libewf_write_io_handle_write_existing_chunk 16 sample_io_environment
                 sample_arguments 0 30 64 64 0 7 1 (sample_world 900 0 0, []))")
      auto
  have "\<not> isl (fst (libewf_write_io_handle_write_existing_chunk 16 sample_io_environment
                      sample_arguments 0 30 64 64 0 7 1 (sample_world 100 0 0, [])))"
    by code_simp
  then obtain written' s'' where
    near: "libewf_write_io_handle_write_existing_chunk 16 sample_io_environment
             sample_arguments 0 30 64 64 0 7 1 (sample_world 100 0 0, [])
           = (Inr written', s'')"
    by (cases "libewf_write_io_handle_write_existing_chunk 16 sample_io_environment
                 sample_arguments 0 30 64 64 0 7 1 (sample_world 100 0 0, [])";
        cases "fst (libewf_write_io_handle_write_existing_chunk 16 sample_io_environment
                 sample_arguments 0 30 64 64 0 7 1 (sample_world 100 0 0, []))")
      auto
  have positioned: "[Pool_get_offset 300, Pool_seek_offset 300 900]
      = Pool_get_offset 300
        # (if fst (snd (sample_io_environment (Pool_get_offset 300) (sample_world 900 0 0)))
              = le_start_offset \<lparr>le_element = 320, le_value = 321, le_start_offset = 900\<rparr>
           then []
           else [Pool_seek_offset 300
                   (le_start_offset \<lparr>le_element = 320, le_value = 321,
                                     le_start_offset = 900\<rparr>)])"
    by simp
  have positioned': "[Pool_get_offset 300]
      = Pool_get_offset 300
        # (if fst (snd (sample_io_environment (Pool_get_offset 300) (sample_world 100 0 0)))
              = le_start_offset \<lparr>le_element = 320, le_value = 321, le_start_offset = 100\<rparr>
           then []
           else [Pool_seek_offset 300
                   (le_start_offset \<lparr>le_element = 320, le_value = 321,
                                     le_start_offset = 100\<rparr>)])"
    by simp
  have limit: "1000 = wio_segment_file_size (write_io_handle_of
                  (world_after sample_io_environment
                     [Pool_get_offset 300, Pool_seek_offset 300 900] (sample_world 900 0 0)))"
    by (simp add: world_after_def sample_world_def)
  have limit': "1000 = wio_segment_file_size (write_io_handle_of
                  (world_after sample_io_environment [Pool_get_offset 300]
                     (sample_world 100 0 0)))"
    by (simp add: world_after_def sample_world_def)
  have range: "- (2 ^ 63) \<le> le_start_offset \<lparr>le_element = 320, le_value = 321,
                                              le_start_offset = 900\<rparr>"
    "(0 :: int) \<le> 64"
    "le_start_offset \<lparr>le_element = 320, le_value = 321, le_start_offset = 900\<rparr> + 64 + 80
       < 2 ^ 63"
    "(0 :: int) \<le> 1000" "(1000 :: int) < 2 ^ 63"
    by simp_all
  have range': "- (2 ^ 63) \<le> le_start_offset \<lparr>le_element = 320, le_value = 321,
                                               le_start_offset = 100\<rparr>"
    "(0 :: int) \<le> 64"
    "le_start_offset \<lparr>le_element = 320, le_value = 321, le_start_offset = 100\<rparr> + 64 + 80
       < 2 ^ 63"
    "(0 :: int) \<le> 1000" "(1000 :: int) < 2 ^ 63"
    by simp_all
  have created: "segment_file_handle_of
                   (delta_segment_table_of
                      (world_after sample_io_environment
                         [Pool_get_offset 300, Pool_seek_offset 300 900,
                          Segment_file_write_last_section 300 0,
                          Segment_table_create_segment_file True 2
                            LIBEWF_SEGMENT_FILE_TYPE_DWF]
                         (sample_world 900 0 0)))
                   2 = Inr 1002"
    by code_simp
  have a: "snd (snd (libewf_write_io_handle_write_existing_chunk 16 sample_io_environment
               sample_arguments 0 30 64 64 0 7 1 (sample_world 900 0 0, [])))
           = [Pool_get_offset 300, Pool_seek_offset 300 900,
              Segment_file_write_last_section 300 0,
              Segment_table_create_segment_file True 2 LIBEWF_SEGMENT_FILE_TYPE_DWF,
              Segment_file_write_start 1002 2 LIBEWF_SEGMENT_FILE_TYPE_DWF,
              Segment_file_write_delta_chunk 1002 0 30 64 7 1 0,
              Segment_file_write_last_section 1002 1]"
    using delta_append_path [OF far world positioned limit range]
    by (auto simp: far created)
  have b: "snd (snd (libewf_write_io_handle_write_existing_chunk 16 sample_io_environment
                  sample_arguments 0 30 64 64 0 7 1 (sample_world 100 0 0, [])))
           = [Pool_get_offset 300, List_remove_element 300 320, Section_list_values_free 321,
              Memory_free_list_element 320, Segment_file_write_delta_chunk 300 0 30 64 7 1 0,
              Segment_file_write_last_section 300 1]"
    using delta_append_path [OF near world positioned' limit' range']
    by (simp add: near)
  from a b show ?thesis
    by (intro conjI)
qed

text \<open>
  Outside that range the test is not the one of the claim: with a chunk size of
  \<open>SSIZE_MAX\<close> the sum wraps to a negative value and the chunk is written into the
  existing delta segment file, though the sum exceeds the segment file size of 1000; with
  a segment file size of \<open>2^63\<close>, which is negative as an \<open>off64_t\<close>, a new delta segment
  file is created, though the sum of 244 does not exceed it. And a call that fails stops
  at the call that failed: where the last section cannot be written, no delta segment
  file is created.
\<close>

theorem delta_append_path_counterexample:
  "snd (snd (libewf_write_io_handle_write_existing_chunk 16 sample_io_environment
               sample_arguments 0 30 SSIZE_MAX 64 0 7 1 (sample_world 100 0 0, [])))
   = [Pool_get_offset 300, List_remove_element 300 320, Section_list_values_free 321,
      Memory_free_list_element 320,
      Segment_file_write_delta_chunk 300 0 30 SSIZE_MAX 7 1 0,
      Segment_file_write_last_section 300 1]
   \<and> 100 + SSIZE_MAX + 4 + 76
       > wio_segment_file_size (write_io_handle_of (sample_world 100 0 0))
   \<and> snd (snd (libewf_write_io_handle_write_existing_chunk 16 sample_io_environment
                  sample_arguments 0 30 64 64 0 7 1
                  ((sample_world 100 0 0)
                     \<lparr>write_io_handle_of :=
                        (write_io_handle_of (sample_world 100 0 0))
                          \<lparr>wio_segment_file_size := 2 ^ 63\<rparr>\<rparr>, [])))
     = [Pool_get_offset 300, Segment_file_write_last_section 300 0,
        Segment_table_create_segment_file True 2 LIBEWF_SEGMENT_FILE_TYPE_DWF,
        Segment_file_write_start 1002 2 LIBEWF_SEGMENT_FILE_TYPE_DWF,
        Segment_file_write_delta_chunk 1002 0 30 64 7 1 0,
        Segment_file_write_last_section 1002 1]
   \<and> (100 :: int) + 64 + 4 + 76 \<le> 2 ^ 63
   \<and> libewf_write_io_handle_write_existing_chunk 16
       (failing_io_environment (Segment_file_write_last_section 300 0))
       sample_arguments 0 30 64 64 0 7 1 (sample_world 900 0 0, [])
     = (Inl (Error IO_ERROR_WRITE_FAILED),
        (sample_world 900 0 0,
         [Pool_get_offset 300, Pool_seek_offset 300 900,
          Segment_file_write_last_section 300 0]))
   \<and> 900 + 64 + 4 + 76
       > wio_segment_file_size (write_io_handle_of (sample_world 900 0 0))"
  by code_simp

end
